theory Spec2Isabelle
  imports Complex_Main
begin

section \<open>Python values and exceptions\<close>

text \<open>
  The Jordan Water Model is Python 2 code built on pynsim, numpy and Pyomo. Python floats are
  modelled as the reals: every property below is about which terms enter a constraint or an
  update, not about rounding. Exceptions are values of the type \<open>py_error\<close>; a function of the
  source that can raise returns \<open>py_error + 'a\<close>.
\<close>

datatype py_error =
  IndexError | KeyError | TypeError | ValueError | AttributeError | ApplicationError

section \<open>Horizon index sets (government.py, CWA.set_allocation and JVA.set_allocation_forecast)\<close>

text \<open>
  \<open>range(a, b)\<close> of Python 2 is the list \<open>[a..<b]\<close>; \<open>for m in range(n): xs.append(m+1)\<close>
  appends \<open>map Suc [0..<n]\<close>. The calendar month of a timestep is a number from 1 to 12.
  \<open>rem_months[0]\<close> raises IndexError on an empty list.
\<close>

definition cwa_rem_months :: "nat \<Rightarrow> py_error + nat list" where
  "cwa_rem_months month =
     (if month = 12 then Inr ([12] @ map Suc [0..<11])
      else (case [month..<13] of
              [] \<Rightarrow> Inl IndexError
            | r0 # rs \<Rightarrow>
                if r0 \<noteq> 1 then Inr ((r0 # rs) @ map Suc [0..<r0 - 1])
                else Inr (r0 # rs)))"

definition jva_rem_months :: "nat \<Rightarrow> nat list" where
  "jva_rem_months month =
     (if month = 12 then [12] @ map Suc [0..<11] else [month..<12])"

text \<open>
  \<open>past_months\<close> is built by the same statements in both institutions; \<open>first_year\<close> stands for
  \<open>current_timestep.year == timesteps[0].year\<close>.
\<close>

definition past_months :: "nat \<Rightarrow> bool \<Rightarrow> nat list" where
  "past_months month first_year =
     (if month = 12 then []
      else (if first_year then [] else [12]) @ map Suc [0..<month - 1])"

section \<open>Solver backends and the fallback cascade (government.py)\<close>

text \<open>
  A Pyomo solve either raises or returns a results object with a solver status and a
  termination condition; after a returning solve the instance holds the variable values the
  solver loaded, which are \<open>None\<close> where nothing was loaded. A fresh instance holds \<open>None\<close>
  everywhere, since no variable of the three models is declared with an initial value. A
  variable is addressed by its component name, its node names and its month.
  \<open>model.solutions.load_from(results)\<close>, called after every returning solve, raises ValueError
  ("Cannot load a SolverResults object with bad status") when the solver status of the
  results is neither ok nor warning, the solution list of the results having been emptied
  when the solve loaded it into the instance; otherwise it returns, without effect on the
  instance.
\<close>

datatype backend = Ipopt | Cplex | Glpk

datatype solver_status = SolverOk | SolverWarning | SolverError | SolverAborted | SolverUnknown

datatype termination_condition = TcOptimal | TcInfeasible | TcUnbounded | TcMaxIterations | TcOther

type_synonym node = string

type_synonym var_index = "string \<times> node list \<times> nat"

type_synonym var_values = "var_index \<Rightarrow> real option"

datatype solve_outcome = Raises py_error | Returns solver_status termination_condition var_values

definition unsolved :: var_values where
  "unsolved = (\<lambda>_. None)"

definition load_from :: "solver_status \<Rightarrow> py_error + unit" where
  "load_from s = (if s = SolverOk \<or> s = SolverWarning then Inr () else Inl ValueError)"

text \<open>The exceptions named in \<open>except (ValueError, pyutilib.common._exceptions.ApplicationError)\<close>.\<close>

definition caught :: "py_error \<Rightarrow> bool" where
  "caught e = (e = ValueError \<or> e = ApplicationError)"

definition bind_err :: "'e + 'a \<Rightarrow> ('a \<Rightarrow> 'e + 'b) \<Rightarrow> 'e + 'b" where
  "bind_err m f = (case m of Inl e \<Rightarrow> Inl e | Inr a \<Rightarrow> f a)"

fun fold_err :: "('a \<Rightarrow> 's \<Rightarrow> 'e + 's) \<Rightarrow> 'a list \<Rightarrow> 's \<Rightarrow> 'e + 's" where
  "fold_err f [] s = Inr s"
| "fold_err f (x # xs) s = (case f x s of Inl e \<Rightarrow> Inl e | Inr s' \<Rightarrow> fold_err f xs s')"

text \<open>\<open>total = total + var[vv].value\<close>: adding \<open>None\<close> to a number raises TypeError.\<close>

definition value_of :: "var_values \<Rightarrow> var_index \<Rightarrow> py_error + real" where
  "value_of vals k = (case vals k of None \<Rightarrow> Inl TypeError | Some x \<Rightarrow> Inr x)"

record cascade_result =
  cr_attempts :: "backend list"
  cr_log :: "string list"
  cr_results :: "solver_status \<times> termination_condition"
  cr_instance :: var_values
  cr_solver_name :: string

subsection \<open>CWA.set_allocation and JVA.set_allocation_forecast: ipopt, then cplex\<close>

text \<open>
  Lines 326-363 (CWA) and 1334-1372 (JVA) are the same statements up to the logged strings.
  The ipopt call and its \<open>load_from\<close> are inside \<open>try\<close>; both cplex calls and their
  \<open>load_from\<close> are outside of any \<open>try\<close>.
\<close>

definition retry_cplex ::
  "string \<Rightarrow> (backend \<Rightarrow> solve_outcome) \<Rightarrow> string list \<Rightarrow> py_error + cascade_result" where
  "retry_cplex retry_msg solver lg =
     (case solver Cplex of
        Raises e \<Rightarrow> Inl e
      | Returns s t v \<Rightarrow>
          bind_err (load_from s) (\<lambda>_.
            Inr \<lparr>cr_attempts = [Ipopt, Cplex], cr_log = lg @ [retry_msg], cr_results = (s, t),
                 cr_instance = v, cr_solver_name = ''cplex''\<rparr>))"

definition ipopt_then_cplex ::
  "string \<Rightarrow> string \<Rightarrow> (backend \<Rightarrow> solve_outcome) \<Rightarrow> string list \<Rightarrow> py_error + cascade_result" where
  "ipopt_then_cplex inst retry_msg solver lg =
     bind_err
       (case solver Ipopt of
          Raises e \<Rightarrow> if caught e then retry_cplex retry_msg solver lg else Inl e
        | Returns s t v \<Rightarrow>
            (case load_from s of
               Inl e \<Rightarrow> if caught e then retry_cplex retry_msg solver lg else Inl e
             | Inr _ \<Rightarrow>
                 if s = SolverOk \<and> t = TcOptimal
                 then Inr \<lparr>cr_attempts = [Ipopt], cr_log = lg, cr_results = (s, t),
                           cr_instance = v, cr_solver_name = ''ipopt''\<rparr>
                 else retry_cplex retry_msg solver lg))
       (\<lambda>r. Inr (r\<lparr>cr_log := cr_log r @
                [if cr_results r = (SolverOk, TcOptimal)
                 then inst @ '' solved using '' @ cr_solver_name r
                 else inst @ '' failed to solve'']\<rparr>))"

definition cwa_cascade :: "(backend \<Rightarrow> solve_outcome) \<Rightarrow> string list \<Rightarrow> py_error + cascade_result" where
  "cwa_cascade = ipopt_then_cplex ''cwa'' '' ... retrying''"

definition jva_cascade :: "(backend \<Rightarrow> solve_outcome) \<Rightarrow> string list \<Rightarrow> py_error + cascade_result" where
  "jva_cascade = ipopt_then_cplex ''jva'' ''jva failed to solve with ipopt ... retrying''"

subsection \<open>WAJ.set_allocation_forecast: ipopt, then cplex, both inside try; glpk otherwise\<close>

datatype waj_solver_status = WajOk | WajIpoptFailed | WajCplexFailed | WajNotOptimal

record waj_cascade_result = cascade_result +
  cr_solver_status :: waj_solver_status

text \<open>
  Lines 2776-2786 and 2789-2799: the cplex retry. \<open>results\<close> keeps its earlier value when the
  solve raises a caught exception; it is unbound when the ipopt solve raised too, and is never
  read then. When the solve returns and \<open>load_from\<close> raises, \<open>results\<close> and the instance are
  those of the cplex solve and \<open>solver_name\<close> is not assigned.
\<close>

definition waj_retry_cplex ::
  "(backend \<Rightarrow> solve_outcome) \<Rightarrow> waj_solver_status \<Rightarrow> solver_status \<times> termination_condition \<Rightarrow>
   string list \<Rightarrow> py_error + waj_cascade_result" where
  "waj_retry_cplex solver status0 results0 lg =
     (case solver Cplex of
        Raises e \<Rightarrow>
          if caught e
          then Inr \<lparr>cr_attempts = [Ipopt, Cplex],
                    cr_log = lg @ [''waj failed to solve using ipopt ... retrying'',
                                   ''waj failed to solve using cplex''],
                    cr_results = results0, cr_instance = unsolved, cr_solver_name = ''ipopt'',
                    cr_solver_status = WajCplexFailed\<rparr>
          else Inl e
      | Returns s t v \<Rightarrow>
          (case load_from s of
             Inl e \<Rightarrow>
               if caught e
               then Inr \<lparr>cr_attempts = [Ipopt, Cplex],
                         cr_log = lg @ [''waj failed to solve using ipopt ... retrying'',
                                        ''waj failed to solve using cplex''],
                         cr_results = (s, t), cr_instance = v, cr_solver_name = ''ipopt'',
                         cr_solver_status = WajCplexFailed\<rparr>
               else Inl e
           | Inr _ \<Rightarrow>
               Inr \<lparr>cr_attempts = [Ipopt, Cplex],
                    cr_log = lg @ [''waj failed to solve using ipopt ... retrying''],
                    cr_results = (s, t), cr_instance = v, cr_solver_name = ''cplex'',
                    cr_solver_status = status0\<rparr>))"

definition waj_cascade ::
  "waj_solver_status \<Rightarrow> (backend \<Rightarrow> solve_outcome) \<Rightarrow> string list \<Rightarrow> py_error + waj_cascade_result" where
  "waj_cascade status solver lg =
     (if status = WajOk then
        bind_err
          (case solver Ipopt of
             Raises e \<Rightarrow>
               if caught e
               then waj_retry_cplex solver WajIpoptFailed (SolverUnknown, TcOther) lg
               else Inl e
           | Returns s t v \<Rightarrow>
               (case load_from s of
                  Inl e \<Rightarrow>
                    if caught e then waj_retry_cplex solver WajIpoptFailed (s, t) lg else Inl e
                | Inr _ \<Rightarrow>
                    if s = SolverOk \<and> t = TcOptimal
                    then Inr \<lparr>cr_attempts = [Ipopt], cr_log = lg, cr_results = (s, t),
                              cr_instance = v, cr_solver_name = ''ipopt'',
                              cr_solver_status = WajOk\<rparr>
                    else waj_retry_cplex solver WajOk (s, t) lg))
          (\<lambda>r. if cr_solver_status r \<noteq> WajCplexFailed then
                  if cr_results r = (SolverOk, TcOptimal)
                  then Inr (r\<lparr>cr_log := cr_log r @ [''waj solved using '' @ cr_solver_name r]\<rparr>)
                  else Inr (r\<lparr>cr_log := cr_log r @ [''waj failed to solve using cplex''],
                              cr_solver_status := WajNotOptimal\<rparr>)
                else Inr (r\<lparr>cr_solver_status := WajNotOptimal\<rparr>))
      else
        (case solver Glpk of
           Raises e \<Rightarrow> Inl e
         | Returns s t v \<Rightarrow>
             bind_err (load_from s) (\<lambda>_.
               Inr \<lparr>cr_attempts = [Glpk], cr_log = lg @ [''waj solved using glpk''],
                    cr_results = (s, t), cr_instance = v, cr_solver_name = ''glpk'',
                    cr_solver_status = status\<rparr>)))"

section \<open>Extraction of the solution into simulation state (government.py)\<close>

text \<open>
  In all three institutions the statements that copy variable values into node, link and
  institution attributes follow the cascade directly: no \<open>if\<close> on the solver status stands
  between them. The index sets are iterated in the order of the lists they were initialised
  from. \<open>xs[i] = v\<close> on a Python list raises IndexError when \<open>i\<close> is not below the length.
\<close>

definition set_item :: "'a list \<Rightarrow> nat \<Rightarrow> 'a \<Rightarrow> py_error + 'a list" where
  "set_item xs i v = (if i < length xs then Inr (xs[i := v]) else Inl IndexError)"

subsection \<open>CWA.set_allocation, lines 326-404\<close>

record cwa_state =
  cwa_timestep_idx :: nat
  cwa_month :: nat
  cwa_wehdah_volume :: real
  cwa_wehdah_node_release :: real
  cwa_wehdah_release :: real
  cwa_wehdah_release_forecast :: "real list"
  cwa_log :: "string list"

definition cwa_storage_step :: "var_values \<Rightarrow> nat \<Rightarrow> cwa_state \<Rightarrow> py_error + cwa_state" where
  "cwa_storage_step vals m st =
     bind_err (value_of vals (''storage'', [''wehdah_res''], m)) (\<lambda>x.
       if cwa_timestep_idx st = 0 then
         (if m = cwa_month st then Inr (st\<lparr>cwa_wehdah_volume := x\<rparr>) else Inr st)
       else if cwa_month st = 12 then
         (if m = 1 then Inr (st\<lparr>cwa_wehdah_volume := x\<rparr>) else Inr st)
       else
         (if m = cwa_month st + 1 then Inr (st\<lparr>cwa_wehdah_volume := x\<rparr>) else Inr st))"

definition cwa_release_step :: "var_values \<Rightarrow> nat \<Rightarrow> cwa_state \<Rightarrow> py_error + cwa_state" where
  "cwa_release_step vals m st =
     bind_err (value_of vals (''release'', [''wehdah_res''], m)) (\<lambda>x.
       if m = cwa_month st then
         bind_err (set_item (cwa_wehdah_release_forecast st) 0 x) (\<lambda>fc.
           Inr (st\<lparr>cwa_wehdah_node_release := x, cwa_wehdah_release := x,
                     cwa_wehdah_release_forecast := fc\<rparr>))
       else if m > cwa_month st then
         bind_err (set_item (cwa_wehdah_release_forecast st) (m - cwa_month st) x) (\<lambda>fc.
           Inr (st\<lparr>cwa_wehdah_release_forecast := fc\<rparr>))
       else
         bind_err (set_item (cwa_wehdah_release_forecast st) ((12 - cwa_month st) + m) x) (\<lambda>fc.
           Inr (st\<lparr>cwa_wehdah_release_forecast := fc\<rparr>)))"

text \<open>The variables are visited in the order of their declaration: release, storage, spill.\<close>

definition cwa_extract :: "nat list \<Rightarrow> var_values \<Rightarrow> cwa_state \<Rightarrow> py_error + cwa_state" where
  "cwa_extract rem_months vals st =
     bind_err
       (fold_err (cwa_release_step vals) rem_months
          (st\<lparr>cwa_wehdah_release_forecast := replicate (length rem_months) 0\<rparr>))
       (fold_err (cwa_storage_step vals) rem_months)"

definition cwa_set_allocation :: "(backend \<Rightarrow> solve_outcome) \<Rightarrow> cwa_state \<Rightarrow> py_error + cwa_state" where
  "cwa_set_allocation solver st =
     bind_err (cwa_rem_months (cwa_month st)) (\<lambda>rem_months.
     bind_err (cwa_cascade solver (cwa_log st)) (\<lambda>r.
       cwa_extract rem_months (cr_instance r) (st\<lparr>cwa_log := cr_log r\<rparr>)))"

subsection \<open>JVA.set_allocation_forecast, lines 1334-1435\<close>

record jva_link =
  jl_start :: node
  jl_end :: node
  jl_flow :: real

record jva_state =
  jva_timestep_idx :: nat
  jva_month :: nat
  jva_model_nodes :: "node list"
  jva_model_storage_nodes :: "node list"
  jva_model_links :: "(node \<times> node) list"
  jva_volume :: "node \<Rightarrow> real"
  jva_release :: "node \<Rightarrow> real"
  jva_links :: "jva_link list"
  jva_demand_forecast_per_node :: "node \<times> nat \<rightharpoonup> real"
  jva_node_allocations :: "node \<times> nat \<rightharpoonup> real option"
  jva_node_allocations_history :: "(node \<times> nat \<rightharpoonup> real option) list"
  jva_node_delivery_history :: "(node \<rightharpoonup> real option) list"
  jva_node_delivery :: "node \<rightharpoonup> real option"
  jva_log :: "string list"

text \<open>\<open>history[-1][k] = v\<close> on a list that has just been appended to.\<close>

definition update_last :: "('a \<Rightarrow> 'a) \<Rightarrow> 'a list \<Rightarrow> 'a list" where
  "update_last f xs = (case rev xs of [] \<Rightarrow> [] | y # ys \<Rightarrow> rev ys @ [f y])"

fun set_first_flow :: "node \<Rightarrow> node \<Rightarrow> real \<Rightarrow> jva_link list \<Rightarrow> jva_link list" where
  "set_first_flow a b x [] = []"
| "set_first_flow a b x (l # ls) =
     (if jl_start l = a \<and> jl_end l = b then l\<lparr>jl_flow := x\<rparr> # ls
      else l # set_first_flow a b x ls)"

definition jva_Q_step :: "var_values \<Rightarrow> (node \<times> node) \<times> nat \<Rightarrow> jva_state \<Rightarrow> py_error + jva_state" where
  "jva_Q_step vals k st =
     (case k of ((a, b), m) \<Rightarrow>
        bind_err (value_of vals (''Q'', [a, b], m)) (\<lambda>x.
          if m = jva_month st then Inr (st\<lparr>jva_links := set_first_flow a b x (jva_links st)\<rparr>)
          else Inr st))"

definition jva_delivery_step :: "var_values \<Rightarrow> node \<times> nat \<Rightarrow> jva_state \<Rightarrow> py_error + jva_state" where
  "jva_delivery_step vals k st =
     (case k of (n, m) \<Rightarrow>
        bind_err
          (if take 2 n = ''so'' then
             (case jva_demand_forecast_per_node st (n, m) of
                None \<Rightarrow> Inl KeyError
              | Some demand \<Rightarrow> bind_err (value_of vals (''delivery'', [n], m)) (\<lambda>x. Inr ()))
           else Inr ())
          (\<lambda>_. let v = vals (''delivery'', [n], m);
                   st1 = st\<lparr>jva_node_allocations := (jva_node_allocations st)((n, m) \<mapsto> v),
                            jva_node_allocations_history :=
                              update_last (\<lambda>h. h((n, m) \<mapsto> v)) (jva_node_allocations_history st)\<rparr>
               in if m = jva_month st
                  then Inr (st1\<lparr>jva_node_delivery_history :=
                                  update_last (\<lambda>h. h(n \<mapsto> v)) (jva_node_delivery_history st1),
                                jva_node_delivery := (jva_node_delivery st1)(n \<mapsto> v)\<rparr>)
                  else Inr st1))"

definition jva_release_step :: "var_values \<Rightarrow> node \<times> nat \<Rightarrow> jva_state \<Rightarrow> py_error + jva_state" where
  "jva_release_step vals k st =
     (case k of (n, m) \<Rightarrow>
        bind_err (value_of vals (''release'', [n], m)) (\<lambda>x.
          if m = jva_month st then Inr (st\<lparr>jva_release := (jva_release st)(n := x)\<rparr>)
          else Inr st))"

definition jva_storage_step :: "var_values \<Rightarrow> node \<times> nat \<Rightarrow> jva_state \<Rightarrow> py_error + jva_state" where
  "jva_storage_step vals k st =
     (case k of (n, m) \<Rightarrow>
        bind_err (value_of vals (''storage'', [n], m)) (\<lambda>x.
          if jva_timestep_idx st = 0 then
            (if m = jva_month st then Inr (st\<lparr>jva_volume := (jva_volume st)(n := x)\<rparr>) else Inr st)
          else if jva_month st = 12 then
            (if m = 1 then Inr (st\<lparr>jva_volume := (jva_volume st)(n := x)\<rparr>) else Inr st)
          else
            (if m = jva_month st + 1 then Inr (st\<lparr>jva_volume := (jva_volume st)(n := x)\<rparr>)
             else Inr st)))"

text \<open>
  The variables are visited in the order of their declaration: Q, delivery, release, storage
  (storage_plus and storage_minus are not read).
\<close>

definition jva_extract :: "nat list \<Rightarrow> var_values \<Rightarrow> jva_state \<Rightarrow> py_error + jva_state" where
  "jva_extract rem_months vals st =
     (let st0 = st\<lparr>jva_node_delivery_history := jva_node_delivery_history st @ [Map.empty],
                   jva_node_allocations_history := jva_node_allocations_history st @ [Map.empty]\<rparr>
      in bind_err (fold_err (jva_Q_step vals) (List.product (jva_model_links st) rem_months) st0) (\<lambda>st1.
         bind_err (fold_err (jva_delivery_step vals) (List.product (jva_model_nodes st) rem_months) st1) (\<lambda>st2.
         bind_err (fold_err (jva_release_step vals) (List.product (jva_model_storage_nodes st) rem_months) st2) (\<lambda>st3.
           fold_err (jva_storage_step vals) (List.product (jva_model_storage_nodes st) rem_months) st3))))"

definition jva_set_allocation_forecast ::
  "(backend \<Rightarrow> solve_outcome) \<Rightarrow> jva_state \<Rightarrow> py_error + jva_state" where
  "jva_set_allocation_forecast solver st =
     bind_err (jva_cascade solver (jva_log st)) (\<lambda>r.
       jva_extract (jva_rem_months (jva_month st)) (cr_instance r) (st\<lparr>jva_log := cr_log r\<rparr>))"

subsection \<open>WAJ.set_allocation_forecast, lines 2349-2359 and 2757-2904\<close>

text \<open>
  The model is that of a run with \<open>export_data\<close> different from 1. \<open>var[k]\<close> raises KeyError
  when \<open>k\<close> is not in the index set of the variable. The months of the WAJ model are
  \<open>range(1, 13)\<close>.
\<close>

record waj_state =
  waj_solver_status :: waj_solver_status
  waj_passive :: bool
  waj_gov_names :: "node list"
  waj_pump_names :: "node list"
  waj_model_nodes :: "node list"
  waj_model_demand_nodes :: "node list"
  waj_model_links :: "(node \<times> node) list"
  waj_demand_forecast :: "node \<times> nat \<rightharpoonup> real"
  waj_allocation_forecast :: "node \<times> nat \<rightharpoonup> real"
  waj_pumping_forecast :: "node \<times> nat \<rightharpoonup> real"
  waj_deficit_forecast :: "node \<times> nat \<rightharpoonup> real"
  waj_surplus_forecast :: "node \<times> nat \<rightharpoonup> real"
  waj_transfer_forecast :: "node \<times> node \<times> nat \<rightharpoonup> real option"
  waj_log :: "string list"

definition waj_months :: "nat list" where
  "waj_months = [1..<13]"

definition indexed_value :: "var_values \<Rightarrow> var_index list \<Rightarrow> var_index \<Rightarrow> py_error + real" where
  "indexed_value vals index k = (if k \<in> set index then value_of vals k else Inl KeyError)"

definition waj_P_index :: "waj_state \<Rightarrow> var_index list" where
  "waj_P_index st = map (\<lambda>(n, m). (''P'', [n], m)) (List.product (waj_model_nodes st) waj_months)"

definition waj_deficit_index :: "waj_state \<Rightarrow> var_index list" where
  "waj_deficit_index st =
     map (\<lambda>(n, m). (''deficit'', [n], m)) (List.product (waj_model_demand_nodes st) waj_months)"

definition waj_Q_index :: "waj_state \<Rightarrow> var_index list" where
  "waj_Q_index st =
     map (\<lambda>((a, b), m). (''Q'', [a, b], m)) (List.product (waj_model_links st) waj_months)"

text \<open>Lines 2819-2841: the totals of Q, P and deficit, in the order of declaration.\<close>

definition waj_totals :: "var_values \<Rightarrow> waj_state \<Rightarrow> py_error + unit" where
  "waj_totals vals st =
     bind_err (fold_err (\<lambda>k total. bind_err (value_of vals k) (\<lambda>x. Inr (total + x)))
                 (waj_Q_index st @ waj_P_index st @ waj_deficit_index st) 0)
       (\<lambda>_. Inr ())"

definition waj_gov_pumping_step :: "var_values \<Rightarrow> node \<times> nat \<Rightarrow> waj_state \<Rightarrow> py_error + waj_state" where
  "waj_gov_pumping_step vals k st =
     (case k of (n, m) \<Rightarrow>
        bind_err (indexed_value vals (waj_P_index st) (''P'', [n], m)) (\<lambda>x.
          Inr (st\<lparr>waj_pumping_forecast := (waj_pumping_forecast st)((n, m) \<mapsto> x)\<rparr>)))"

definition waj_gov_deficit_step :: "var_values \<Rightarrow> node \<times> nat \<Rightarrow> waj_state \<Rightarrow> py_error + waj_state" where
  "waj_gov_deficit_step vals k st =
     (case k of (n, m) \<Rightarrow>
        bind_err (indexed_value vals (waj_deficit_index st) (''deficit'', [n], m)) (\<lambda>x.
          Inr (st\<lparr>waj_deficit_forecast := (waj_deficit_forecast st)((n, m) \<mapsto> x)\<rparr>)))"

definition waj_gov_allocation_step :: "node \<times> nat \<Rightarrow> waj_state \<Rightarrow> py_error + waj_state" where
  "waj_gov_allocation_step k st =
     (case waj_demand_forecast st k of
        None \<Rightarrow> Inl KeyError
      | Some demand \<Rightarrow>
          (case waj_deficit_forecast st k of
             None \<Rightarrow> Inl KeyError
           | Some deficit \<Rightarrow>
               Inr (st\<lparr>waj_allocation_forecast := (waj_allocation_forecast st)(k \<mapsto> demand - deficit)\<rparr>)))"

text \<open>Lines 2843-2864, for one institution of type GOV: P, then deficit, then the allocation.\<close>

definition waj_gov_step :: "var_values \<Rightarrow> node \<Rightarrow> waj_state \<Rightarrow> py_error + waj_state" where
  "waj_gov_step vals n st =
     bind_err (fold_err (waj_gov_pumping_step vals) (map (Pair n) waj_months) st) (\<lambda>st1.
     bind_err (fold_err (waj_gov_deficit_step vals) (map (Pair n) waj_months) st1) (\<lambda>st2.
       fold_err waj_gov_allocation_step (map (Pair n) waj_months) st2))"

definition waj_transfer_step :: "var_values \<Rightarrow> (node \<times> node) \<times> nat \<Rightarrow> waj_state \<Rightarrow> py_error + waj_state" where
  "waj_transfer_step vals k st =
     (case k of ((a, b), m) \<Rightarrow>
        Inr (st\<lparr>waj_transfer_forecast :=
                  (waj_transfer_forecast st)((a, b, m) \<mapsto> vals (''Q'', [a, b], m))\<rparr>))"

definition waj_extract :: "var_values \<Rightarrow> waj_state \<Rightarrow> py_error + waj_state" where
  "waj_extract vals st =
     bind_err (waj_totals vals st) (\<lambda>_.
     bind_err (fold_err (waj_gov_step vals) (waj_gov_names st) st) (\<lambda>st1.
     bind_err (fold_err (waj_gov_pumping_step vals)
                 (List.product (waj_pump_names st) waj_months) st1) (\<lambda>st2.
       fold_err (waj_transfer_step vals) (List.product (waj_model_links st) waj_months) st2)))"

definition waj_set_allocation_forecast ::
  "(backend \<Rightarrow> solve_outcome) \<Rightarrow> waj_state \<Rightarrow> py_error + waj_state" where
  "waj_set_allocation_forecast solver st =
     (let st0 = st\<lparr>waj_allocation_forecast := Map.empty, waj_pumping_forecast := Map.empty,
                   waj_transfer_forecast := Map.empty, waj_deficit_forecast := Map.empty,
                   waj_surplus_forecast := Map.empty\<rparr>
      in if waj_passive st then Inr st0
         else bind_err (waj_cascade (waj_solver_status st) solver (waj_log st)) (\<lambda>r.
                waj_extract (cr_instance r)
                  (st0\<lparr>waj_log := cr_log r, waj_solver_status := cr_solver_status r\<rparr>)))"

section \<open>Constraints of the allocation models (government.py)\<close>

text \<open>
  A constraint rule of a model is a predicate on an assignment of reals to the variables; a
  solution is feasible when every constraint the model declares holds of it. Parameters are
  functions of their indices.
\<close>

type_synonym assignment = "var_index \<Rightarrow> real"

type_synonym link = "node \<times> node"

subsection \<open>The dictionaries of incoming and outgoing links\<close>

text \<open>
  \<open>if d.get(k): d[k].append(l) else: d[k] = [l]\<close>, where \<open>d.get(k)\<close> is false for a missing
  key and for an empty list; \<open>d.get(node, [])\<close> reads with the default \<open>[]\<close>.
\<close>

definition dict_append :: "('k \<rightharpoonup> 'a list) \<Rightarrow> 'k \<Rightarrow> 'a \<Rightarrow> ('k \<rightharpoonup> 'a list)" where
  "dict_append d k x =
     (case d k of
        None \<Rightarrow> d(k \<mapsto> [x])
      | Some [] \<Rightarrow> d(k \<mapsto> [x])
      | Some (y # ys) \<Rightarrow> d(k \<mapsto> (y # ys) @ [x]))"

fun link_dicts ::
  "link list \<Rightarrow> (node \<rightharpoonup> link list) \<times> (node \<rightharpoonup> link list) \<Rightarrow>
   (node \<rightharpoonup> link list) \<times> (node \<rightharpoonup> link list)" where
  "link_dicts [] d = d"
| "link_dicts (l # ls) (incoming, outgoing) =
     link_dicts ls (dict_append incoming (snd l) l, dict_append outgoing (fst l) l)"

definition incoming_links :: "link list \<Rightarrow> node \<rightharpoonup> link list" where
  "incoming_links links = fst (link_dicts links (Map.empty, Map.empty))"

definition outgoing_links :: "link list \<Rightarrow> node \<rightharpoonup> link list" where
  "outgoing_links links = snd (link_dicts links (Map.empty, Map.empty))"

definition get_default :: "('k \<rightharpoonup> 'a list) \<Rightarrow> 'k \<Rightarrow> 'a list" where
  "get_default d k = (case d k of None \<Rightarrow> [] | Some xs \<Rightarrow> xs)"

subsection \<open>WAJ: mass_balance_demand, lines 2550-2588\<close>

definition waj_mass_balance_demand ::
  "link list \<Rightarrow> (node \<times> nat \<Rightarrow> real) \<Rightarrow> assignment \<Rightarrow> node \<Rightarrow> nat \<Rightarrow> bool" where
  "waj_mass_balance_demand links demand sol node month =
     (let nodes_in = get_default (incoming_links links) node;
          nodes_out = get_default (outgoing_links links) node;
          term1 = sum_list (map (\<lambda>(n1, n2). sol (''Q'', [n1, n2], month)) nodes_in);
          term2 = sol (''P'', [node], month);
          term3 = sol (''deficit'', [node], month);
          term4 = sum_list (map (\<lambda>(n1, n2). sol (''Q'', [n1, n2], month)) nodes_out);
          term5 = demand (node, month)
      in (term1 + term2 + term3) - (term4 + term5) = 0)"

definition waj_mass_balance_demand_const ::
  "node list \<Rightarrow> link list \<Rightarrow> (node \<times> nat \<Rightarrow> real) \<Rightarrow> assignment \<Rightarrow> bool" where
  "waj_mass_balance_demand_const demand_nodes links demand sol =
     (\<forall>node \<in> set demand_nodes. \<forall>month \<in> set waj_months.
        waj_mass_balance_demand links demand sol node month)"

subsection \<open>JVA: m_mass_balance_demand, lines 990-1034\<close>

text \<open>
  The fields of \<open>jva_model\<close> are the sets and parameters of the JVA model that the two
  constraint rules modelled here read; \<open>model.cost\<close> is the length of the link.
\<close>

record jva_model =
  jm_month :: nat
  jm_non_storage_nodes :: "node list"
  jm_storage_nodes :: "node list"
  jm_links :: "link list"
  jm_cost :: "link \<Rightarrow> real"
  jm_jva_nrw_factor :: real
  jm_inflow :: "node \<times> nat \<Rightarrow> real"
  jm_exog_outflow :: "node \<times> nat \<Rightarrow> real"
  jm_evap :: "node \<times> nat \<Rightarrow> real"
  jm_seepage :: "node \<times> nat \<Rightarrow> real"
  jm_initial_storage :: "node \<Rightarrow> real"

definition jva_net_inflow :: "jva_model \<Rightarrow> assignment \<Rightarrow> link list \<Rightarrow> nat \<Rightarrow> real" where
  "jva_net_inflow md sol nodes_in month =
     sum_list (map (\<lambda>(n1, n2). sol (''Q'', [n1, n2], month) -
                      (sol (''Q'', [n1, n2], month) * jm_cost md (n1, n2) * (6 / 1000000) *
                       jm_jva_nrw_factor md)) nodes_in)"

definition m_mass_balance_demand :: "jva_model \<Rightarrow> assignment \<Rightarrow> node \<Rightarrow> nat \<Rightarrow> bool" where
  "m_mass_balance_demand md sol node month =
     (let nodes_in = get_default (incoming_links (jm_links md)) node;
          nodes_out = get_default (outgoing_links (jm_links md)) node;
          term1 = jva_net_inflow md sol nodes_in month;
          term2 = jm_inflow md (node, month);
          term4 = sum_list (map (\<lambda>(n1, n2). sol (''Q'', [n1, n2], month)) nodes_out);
          term5 = sol (''delivery'', [node], month);
          term6 = jm_exog_outflow md (node, month)
      in (term1 + term2) - (term4 + term5 + term6) = 0)"

definition m_mass_balance_demand_const :: "jva_model \<Rightarrow> assignment \<Rightarrow> bool" where
  "m_mass_balance_demand_const md sol =
     (\<forall>node \<in> set (jm_non_storage_nodes md). \<forall>month \<in> set (jva_rem_months (jm_month md)).
        m_mass_balance_demand md sol node month)"

subsection \<open>The mass balance in the words of the specification\<close>

text \<open>
  Total link inflow + exogenous inflow + extraction + signed deficit - total link outflow
  - delivered demand - exogenous scheduled outflow = 0.
\<close>

definition spec_mass_balance :: "real \<Rightarrow> real \<Rightarrow> real \<Rightarrow> real \<Rightarrow> real \<Rightarrow> real \<Rightarrow> real \<Rightarrow> bool" where
  "spec_mass_balance link_inflow exog_inflow extraction deficit link_outflow delivery exog_outflow =
     (link_inflow + exog_inflow + extraction + deficit - link_outflow - delivery - exog_outflow = 0)"

definition link_inflow :: "link list \<Rightarrow> assignment \<Rightarrow> node \<Rightarrow> nat \<Rightarrow> real" where
  "link_inflow links sol node month =
     (\<Sum>(n1, n2) \<leftarrow> filter (\<lambda>l. snd l = node) links. sol (''Q'', [n1, n2], month))"

definition link_outflow :: "link list \<Rightarrow> assignment \<Rightarrow> node \<Rightarrow> nat \<Rightarrow> real" where
  "link_outflow links sol node month =
     (\<Sum>(n1, n2) \<leftarrow> filter (\<lambda>l. fst l = node) links. sol (''Q'', [n1, n2], month))"

definition link_loss :: "jva_model \<Rightarrow> assignment \<Rightarrow> node \<Rightarrow> nat \<Rightarrow> real" where
  "link_loss md sol node month =
     (\<Sum>(n1, n2) \<leftarrow> filter (\<lambda>l. snd l = node) (jm_links md).
        sol (''Q'', [n1, n2], month) * jm_cost md (n1, n2) * (6 / 1000000) * jm_jva_nrw_factor md)"

subsection \<open>Storage dynamics: res_balance_storage of CWA (lines 252-264) and JVA (lines 1084-1135)\<close>

text \<open>\<open>xs[-1]\<close> raises IndexError on an empty list.\<close>

definition last_item :: "'a list \<Rightarrow> py_error + 'a" where
  "last_item xs = (case xs of [] \<Rightarrow> Inl IndexError | _ \<Rightarrow> Inr (last xs))"

text \<open>CWA.set_allocation, lines 204-209: the initial storage of wehdah_res.\<close>

definition cwa_initial_storage :: "nat \<Rightarrow> real \<Rightarrow> real list \<Rightarrow> real list \<Rightarrow> py_error + real" where
  "cwa_initial_storage timestep_idx volume release_history volume_history =
     (if timestep_idx = 0 then Inr volume
      else if timestep_idx = 1 then
        bind_err (last_item release_history) (\<lambda>r. Inr (volume - r + 1145846))
      else last_item volume_history)"


record cwa_model =
  cm_month :: nat
  cm_rem_months :: "nat list"
  cm_storage_nodes :: "node list"
  cm_inflow :: "node \<times> nat \<Rightarrow> real"
  cm_evap :: "node \<times> nat \<Rightarrow> real"
  cm_initial_storage :: "node \<Rightarrow> real"

definition cwa_res_balance_storage :: "cwa_model \<Rightarrow> assignment \<Rightarrow> node \<Rightarrow> nat \<Rightarrow> bool" where
  "cwa_res_balance_storage md sol node month =
     (if month = cm_month md then
        sol (''storage'', [node], month) = cm_initial_storage md node
      else if month = 1 then
        sol (''storage'', [node], month) - sol (''storage'', [node], 12)
          + sol (''release'', [node], 12) - cm_inflow md (node, 12)
          + cm_evap md (node, 12) + sol (''spill'', [node], 12) = 0
      else
        sol (''storage'', [node], month) - sol (''storage'', [node], month - 1)
          + sol (''release'', [node], month - 1) - cm_inflow md (node, month - 1)
          + cm_evap md (node, month - 1) + sol (''spill'', [node], month - 1) = 0)"





section \<open>The groundwater response engine (gw_module.py, GWResponseEngine.run)\<close>

text \<open>
  The arrays of the engine have the shapes the code fixes: \<open>head\<close> and \<open>addhead\<close> are 249 by
  1021, \<open>pumping\<close> is 249 by 1, \<open>dd\<close> is 249 by 249 by 1021. An array is a function of its
  indices, read inside its shape only. \<open>head[int(row)] = ...\<close> raises IndexError for a row
  outside the array. \<open>ge_urb_01_pumping\<close> is the pumping of the network node 130104_urb_01,
  \<open>None\<close> when the network has no such node. The contraction \<open>einsum('ijk,il ->ljk', dd, p)\<close>
  sums \<open>dd[i, j, k] * p[i, 0]\<close> over \<open>i\<close>. From timestep 1023 to 2041 the slice of \<open>dd\<close> and the
  empty slice of \<open>addhead\<close> cannot be broadcast together, and numpy raises ValueError.
\<close>

definition n_locs :: nat where
  "n_locs = 249"

definition n_times :: nat where
  "n_times = 1021"

record gw_node =
  gn_name :: string
  gn_matrix_position :: nat
  gn_head_calc :: "nat \<Rightarrow> real"
  gn_pumping :: real
  gn_baseline_pumping :: real

record gw_engine =
  ge_head :: "nat \<Rightarrow> nat \<Rightarrow> real"
  ge_pumping :: "nat \<Rightarrow> real"
  ge_dd :: "nat \<Rightarrow> nat \<Rightarrow> nat \<Rightarrow> real"
  ge_nodes :: "gw_node list"
  ge_gw_response_factor :: real
  ge_urb_01_pumping :: "real option"

definition consolidate ::
  "real option \<Rightarrow> gw_node \<Rightarrow> (nat \<Rightarrow> nat \<Rightarrow> real) \<times> (nat \<Rightarrow> real) \<Rightarrow>
   py_error + (nat \<Rightarrow> nat \<Rightarrow> real) \<times> (nat \<Rightarrow> real)" where
  "consolidate urb_01_pumping i hp =
     (case hp of (head, pumping) \<Rightarrow>
        let row = gn_matrix_position i in
        if n_locs \<le> row then Inl IndexError
        else
          let head1 = head(row := gn_head_calc i);
              p1 = pumping(row := (gn_pumping i - gn_baseline_pumping i) / (1 / 100));
              p2 = (if gn_name i = ''210401_ag_02'' then p1(row := 0) else p1);
              p3 = (if gn_name i = ''130104_urb_01''
                    then p2(row := ((gn_pumping i * (3 / 4)) - gn_baseline_pumping i) / (1 / 100))
                    else p2)
          in bind_err
               (if gn_name i = ''130104_urb_02'' then
                  (case urb_01_pumping of
                     None \<Rightarrow> Inl AttributeError
                   | Some q \<Rightarrow>
                       Inr (p3(row := ((gn_pumping i + (q * (1 / 4))) - gn_baseline_pumping i)
                                        / (1 / 100))))
                else Inr p3)
               (\<lambda>p4. Inr (head1, if gn_name i = ''330103_ag_01'' then p4(row := 0) else p4)))"

definition einsum :: "(nat \<Rightarrow> nat \<Rightarrow> nat \<Rightarrow> real) \<Rightarrow> (nat \<Rightarrow> real) \<Rightarrow> nat \<Rightarrow> nat \<Rightarrow> real" where
  "einsum dd p j k = (\<Sum>i \<leftarrow> [0..<n_locs]. dd i j k * p i)"

definition addhead ::
  "(nat \<Rightarrow> nat \<Rightarrow> nat \<Rightarrow> real) \<Rightarrow> (nat \<Rightarrow> real) \<Rightarrow> real \<Rightarrow> nat \<Rightarrow> nat \<Rightarrow> nat \<Rightarrow> real" where
  "addhead dd pumping factor timestep j s =
     (if timestep = 1 then 0 + - 1 * einsum dd (\<lambda>i. pumping i * factor) j s
      else if s < timestep - 1 then 0
      else 0 + - 1 * einsum dd (\<lambda>i. pumping i * factor) j (s - (timestep - 1)))"

definition run :: "nat \<Rightarrow> gw_engine \<Rightarrow> py_error + gw_engine" where
  "run current_timestep_idx st =
     (let timestep = current_timestep_idx + 1 in
      bind_err (fold_err (consolidate (ge_urb_01_pumping st)) (ge_nodes st)
                  (ge_head st, ge_pumping st)) (\<lambda>(head, pumping).
        if n_times + 1 < timestep \<and> timestep < 2 * n_times then Inl ValueError
        else
          let head' = (\<lambda>j s. if j < n_locs \<and> s < n_times
                             then head j s + addhead (ge_dd st) pumping (ge_gw_response_factor st)
                                              timestep j s
                             else head j s)
          in Inr (st\<lparr>ge_head := head', ge_pumping := pumping,
                      ge_nodes := map (\<lambda>i. i\<lparr>gn_head_calc := head' (gn_matrix_position i)\<rparr>)
                                    (ge_nodes st)\<rparr>)))"

text \<open>
  The invariant that ties the engine to its nodes: the head row a node carries is the row of
  the head array at its matrix position. network_setup.py establishes it (each \<open>head_calc\<close> is
  the node's row of \<open>baseline_heads\<close>, which is the initial \<open>head\<close>), and step 4 of every run
  re-establishes it.
\<close>

definition nodes_consistent :: "gw_engine \<Rightarrow> bool" where
  "nodes_consistent st =
     (\<forall>i \<in> set (ge_nodes st). gn_head_calc i = ge_head st (gn_matrix_position i))"

definition special_names :: "string list" where
  "special_names = [''210401_ag_02'', ''130104_urb_01'', ''130104_urb_02'', ''330103_ag_01'']"

section \<open>The tanker market (market.py, TankerMarket.det_tanker_market_contracts)\<close>

text \<open>
  Agents are records of the attributes the method reads and writes; the three agent lists are
  \<open>all_farms\<close>, \<open>all_subdists\<close> and \<open>all_consumers\<close>. A consumer refers to its
  subdistrict by the position of the subdistrict in \<open>all_subdists\<close>
  (\<open>all_subdists.index(ha.subdist)\<close>, which raises ValueError when there is none). Every
  group of \<open>all_fewer_farms\<close> is a one-element list holding the position of an active farm in
  \<open>all_farms\<close>. \<open>mk_road_dist\<close> is the table of road distances in metres, read by the
  subdistrict code of the town and the subdistrict of the well; \<open>mk_policy\<close> holds the caps of
  the tanker policies 2 and 3, which the method computes from past sales. Not modelled: the
  willingness-to-pay attributes of a consumer, the objective of the model, and the export of the
  results to the governorate wrappers.

  The persistent Pyomo model is the record \<open>fwm_model\<close>: its index sets are fixed when it is
  built in the first run, its parameters are overwritten in every later run. The parameters
  are declared \<open>mutable=True\<close>: an index without an entry in the initialising dictionary has
  no value (\<open>None\<close> for \<open>f_qmax\<close> and \<open>min_prcs\<close>), and nothing is raised when the model is
  built. Assigning to a parameter at an index outside of its index set raises KeyError. A
  solve either raises or returns a termination condition and the values of \<open>fwm.xs\<close>;
  \<open>mk_solve_calls\<close> records the solver options of every call of \<open>opt.solve\<close>.
  \<open>float("inf")\<close> is the bound \<open>Infinite\<close>.
\<close>

record farm =
  f_is_active_in_tanker_market :: bool
  f_subdistrict :: nat
  f_tanker_offer_quantity :: real
  f_tanker_water_price :: real
  f_gw_sales_to_tanker :: "real list"
  f_gw_sale_to_tanker :: real
  f_final_tanker_prices :: "real list"
  f_final_tanker_price :: real
  f_tanker_market_revenue :: real

record subdist =
  d_subdist_code :: nat
  d_tanker_price :: real
  d_max_tanker_distance :: real
  d_tanker_distances :: "real list"

record consumer =
  a_subdist :: nat
  a_commercial :: bool
  a_represented_units :: real
  a_piped_consumption :: real
  a_sigma :: real
  a_sigma2 :: real
  a_tanker_consumption :: real
  a_final_tanker_price :: real
  a_tanker_expenditure :: real
  a_expenditure :: real
  a_tanker_distance_avg :: real
  a_tanker_distances :: "real list"
  a_tanker_sales_per_farm :: "real list"

datatype bound = Infinite | Finite real

fun le_bound :: "real \<Rightarrow> bound \<Rightarrow> bool" where
  "le_bound x Infinite = True"
| "le_bound x (Finite b) = (x \<le> b)"

datatype policy = NoPolicy | LicenseCap real | HouseholdPriority real real

record ipopt_options =
  warm_start_init_point :: "string option"
  warm_start_bound_push :: "real option"
  warm_start_mult_bound_push :: "real option"
  mu_init :: "real option"

definition cold_options :: ipopt_options where
  "cold_options = \<lparr>warm_start_init_point = None, warm_start_bound_push = None,
     warm_start_mult_bound_push = None, mu_init = None\<rparr>"

record fwm_model =
  fwm_hixs :: "nat list"
  fwm_fixs :: "nat list"
  fwm_hhixs :: "nat list"
  fwm_hcixs :: "nat list"
  fwm_fs_hixs :: "nat \<Rightarrow> nat list"
  fwm_hs_fixs :: "nat \<Rightarrow> nat list"
  fwm_hunits :: "nat \<Rightarrow> real"
  fwm_coefs :: "nat \<Rightarrow> real"
  fwm_expos :: "nat \<Rightarrow> real"
  fwm_pw_qs :: "nat \<Rightarrow> real"
  fwm_pw_css :: "nat \<Rightarrow> real"
  fwm_min_prcs :: "nat \<times> nat \<rightharpoonup> real"
  fwm_f_qmax :: "nat \<rightharpoonup> real"
  fwm_is_hix_actives :: "nat \<Rightarrow> bound"
  fwm_policy :: policy

datatype market_status = PreRun | StatusOk | FailedOnce | FailedTwice


record market =
  mk_transport_cost_coef :: real
  mk_minimum_farm_offer_constraint :: real
  mk_max_tanker_sale_distance :: real
  mk_road_dist :: "nat \<Rightarrow> nat \<Rightarrow> real"
  mk_policy :: policy
  mk_is_tanker_market_first_run :: bool
  mk_fwm :: "fwm_model option"
  mk_opt_options :: ipopt_options
  mk_solve_calls :: "ipopt_options list"
  mk_result_xs :: "(nat \<times> nat \<rightharpoonup> real) option"
  mk_solver_status :: "market_status option"
  mk_termination_condition :: "termination_condition option"
  mk_log :: "string list"
  mk_farms :: "farm list"
  mk_subdists :: "subdist list"
  mk_consumers :: "consumer list"





definition all_fewer_farms :: "market \<Rightarrow> nat list list" where
  "all_fewer_farms st =
     map (\<lambda>k. [k]) (filter (\<lambda>k. f_is_active_in_tanker_market (mk_farms st ! k))
                        [0..<length (mk_farms st)])"

definition hindices :: "market \<Rightarrow> nat list" where
  "hindices st = [0..<length (mk_consumers st)]"

definition findices :: "market \<Rightarrow> nat list" where
  "findices st = [0..<length (all_fewer_farms st)]"

definition dindices :: "market \<Rightarrow> nat list" where
  "dindices st = [0..<length (mk_subdists st)]"

definition ds_hindices :: "market \<Rightarrow> nat \<Rightarrow> nat list" where
  "ds_hindices st d = filter (\<lambda>h. a_subdist (mk_consumers st ! h) = d) (hindices st)"

definition hhindices :: "market \<Rightarrow> nat list" where
  "hhindices st = filter (\<lambda>h. \<not> a_commercial (mk_consumers st ! h)) (hindices st)"

definition hcindices :: "market \<Rightarrow> nat list" where
  "hcindices st = filter (\<lambda>h. a_commercial (mk_consumers st ! h)) (hindices st)"

record hparams =
  hp_repres_units :: real
  hp_cs_coef :: real
  hp_cs_expo :: real
  hp_pw_consp :: real
  hp_pw_csurpl :: real
  hp_is_hix_active :: bound

definition main_assignment :: "consumer \<Rightarrow> hparams" where
  "main_assignment ha =
     (if a_represented_units ha > 0 \<and> a_piped_consumption ha > 0 then
        \<lparr>hp_repres_units = a_represented_units ha, hp_cs_coef = a_sigma ha,
         hp_cs_expo = a_sigma2 ha, hp_pw_consp = a_piped_consumption ha,
         hp_pw_csurpl = ((a_sigma ha * ln (a_piped_consumption ha)) - a_sigma ha + a_sigma2 ha)
                          * a_piped_consumption ha,
         hp_is_hix_active = Infinite\<rparr>
      else
        \<lparr>hp_repres_units = 1, hp_cs_coef = 0, hp_cs_expo = 0, hp_pw_consp = 0,
         hp_pw_csurpl = 0, hp_is_hix_active = Finite 0\<rparr>)"

definition fa0 :: "market \<Rightarrow> nat \<Rightarrow> farm" where
  "fa0 st f = mk_farms st ! hd (all_fewer_farms st ! f)"

definition new_road_distance :: "market \<Rightarrow> nat \<Rightarrow> nat \<Rightarrow> real" where
  "new_road_distance st d f =
     mk_road_dist st (d_subdist_code (mk_subdists st ! d)) (f_subdistrict (fa0 st f)) / 1000"

definition in_reach :: "market \<Rightarrow> nat \<Rightarrow> nat \<Rightarrow> bool" where
  "in_reach st d f =
     (new_road_distance st d f \<le> mk_max_tanker_sale_distance st
      \<or> f_subdistrict (fa0 st f) = d_subdist_code (mk_subdists st ! d))"

definition ds_findices :: "market \<Rightarrow> nat \<Rightarrow> nat list" where
  "ds_findices st d = filter (in_reach st d) (findices st)"

definition hs_findices :: "market \<Rightarrow> nat \<Rightarrow> nat list" where
  "hs_findices st h =
     concat (map (\<lambda>d. if h \<in> set (ds_hindices st d) then ds_findices st d else []) (dindices st))"

definition fs_hindices :: "market \<Rightarrow> nat \<Rightarrow> nat list" where
  "fs_hindices st f =
     concat (map (\<lambda>d. if f \<in> set (ds_findices st d) then ds_hindices st d else []) (dindices st))"

definition fas_pos :: "market \<Rightarrow> nat \<Rightarrow> farm list" where
  "fas_pos st f =
     filter (\<lambda>fa. f_tanker_offer_quantity fa > 0) (map ((!) (mk_farms st)) (all_fewer_farms st ! f))"

definition prep_mean_price :: "market \<Rightarrow> nat \<Rightarrow> real" where
  "prep_mean_price st f =
     (if length (fas_pos st f) > 0
      then sum_list (map f_tanker_water_price (fas_pos st f)) / real (length (fas_pos st f))
      else 1)"

definition max_offer_constraints :: "market \<Rightarrow> nat \<rightharpoonup> real" where
  "max_offer_constraints st f =
     (if f \<in> set (findices st) \<and> (\<exists>d \<in> set (dindices st). in_reach st d f) then
        Some (if length (fas_pos st f) > 0
              then sum_list (map f_tanker_offer_quantity (fas_pos st f)) / (365 / 12)
              else mk_minimum_farm_offer_constraint st)
      else None)"

definition min_prices :: "market \<Rightarrow> nat \<times> nat \<rightharpoonup> real" where
  "min_prices st k =
     (case k of (h, f) \<Rightarrow>
        if h \<in> set (hindices st) \<and> f \<in> set (hs_findices st h)
        then Some ((mk_transport_cost_coef st
                      * new_road_distance st (a_subdist (mk_consumers st ! h)) f)
                   + prep_mean_price st f)
        else None)"


definition caps_hold :: "fwm_model \<Rightarrow> (nat \<times> nat \<Rightarrow> real) \<Rightarrow> bool" where
  "caps_hold fwm xs =
     (case fwm_policy fwm of
        NoPolicy \<Rightarrow> True
      | LicenseCap tanker_cap1 \<Rightarrow>
          (\<Sum>h \<leftarrow> fwm_hixs fwm. \<Sum>f \<leftarrow> fwm_hs_fixs fwm h. xs (h, f)) \<le> tanker_cap1
      | HouseholdPriority hh_tanker_cap1 co_tanker_cap1 \<Rightarrow>
          (\<Sum>h \<leftarrow> fwm_hhixs fwm. \<Sum>f \<leftarrow> fwm_hs_fixs fwm h. xs (h, f)) \<le> hh_tanker_cap1
          \<and> (\<Sum>h \<leftarrow> fwm_hcixs fwm. \<Sum>f \<leftarrow> fwm_hs_fixs fwm h. xs (h, f)) \<le> co_tanker_cap1)"

text \<open>
  A constraint whose parameter has no value cannot be evaluated and holds of no assignment.
\<close>

definition sales_ceiling_constraint :: "fwm_model \<Rightarrow> (nat \<times> nat \<Rightarrow> real) \<Rightarrow> nat \<Rightarrow> bool" where
  "sales_ceiling_constraint fwm xs f =
     (case fwm_f_qmax fwm f of
        None \<Rightarrow> False
      | Some qmax \<Rightarrow> (\<Sum>h \<leftarrow> fwm_fs_hixs fwm f. xs (h, f)) \<le> qmax)"

definition inactivity_constraint :: "fwm_model \<Rightarrow> (nat \<times> nat \<Rightarrow> real) \<Rightarrow> nat \<Rightarrow> bool" where
  "inactivity_constraint fwm xs h =
     le_bound (\<Sum>f \<leftarrow> fwm_hs_fixs fwm h. xs (h, f)) (fwm_is_hix_actives fwm h)"

definition feasible :: "fwm_model \<Rightarrow> (nat \<times> nat \<Rightarrow> real) \<Rightarrow> bool" where
  "feasible fwm xs =
     ((\<forall>h \<in> set (fwm_hixs fwm). \<forall>f \<in> set (fwm_fixs fwm). 0 \<le> xs (h, f))
      \<and> (\<forall>f \<in> set (fwm_fixs fwm). sales_ceiling_constraint fwm xs f)
      \<and> (\<forall>h \<in> set (fwm_hixs fwm). inactivity_constraint fwm xs h)
      \<and> caps_hold fwm xs)"

text \<open>
  Lines 1085-1140: the model of the first run. The parameter \<open>f_qmax\<close> of a farm group within
  reach of no subdistrict has no value.
\<close>

definition build_fwm :: "market \<Rightarrow> fwm_model" where
  "build_fwm st =
     \<lparr>fwm_hixs = hindices st, fwm_fixs = findices st, fwm_hhixs = hhindices st,
      fwm_hcixs = hcindices st, fwm_fs_hixs = fs_hindices st,
      fwm_hs_fixs = hs_findices st,
      fwm_hunits = (\<lambda>h. hp_repres_units (main_assignment (mk_consumers st ! h))),
      fwm_coefs = (\<lambda>h. hp_cs_coef (main_assignment (mk_consumers st ! h))),
      fwm_expos = (\<lambda>h. hp_cs_expo (main_assignment (mk_consumers st ! h))),
      fwm_pw_qs = (\<lambda>h. hp_pw_consp (main_assignment (mk_consumers st ! h))),
      fwm_pw_css = (\<lambda>h. hp_pw_csurpl (main_assignment (mk_consumers st ! h))),
      fwm_min_prcs = min_prices st,
      fwm_f_qmax = max_offer_constraints st,
      fwm_is_hix_actives = (\<lambda>h. hp_is_hix_active (main_assignment (mk_consumers st ! h))),
      fwm_policy = mk_policy st\<rparr>"








definition xs_lookup :: "(nat \<times> nat \<rightharpoonup> real) option \<Rightarrow> nat \<Rightarrow> nat \<Rightarrow> py_error + real" where
  "xs_lookup result_xs h f =
     (case result_xs of
        None \<Rightarrow> Inl TypeError
      | Some m \<Rightarrow> (case m (h, f) of None \<Rightarrow> Inl KeyError | Some v \<Rightarrow> Inr v))"

fun sum_err :: "(py_error + real) list \<Rightarrow> py_error + real" where
  "sum_err [] = Inr 0"
| "sum_err (x # xs) =
     (case x of Inl e \<Rightarrow> Inl e | Inr v \<Rightarrow> bind_err (sum_err xs) (\<lambda>s. Inr (v + s)))"

definition subdist_purchase :: "market \<Rightarrow> nat \<Rightarrow> nat \<Rightarrow> py_error + real" where
  "subdist_purchase st d f =
     sum_err (map (\<lambda>h. xs_lookup (mk_result_xs st) h f) (ds_hindices st d))"

definition update_mean_price :: "market \<Rightarrow> nat \<Rightarrow> real" where
  "update_mean_price st f =
     sum_list (map (\<lambda>k. f_tanker_water_price (mk_farms st ! k)) (all_fewer_farms st ! f))
       / real (length (all_fewer_farms st ! f))"

definition min_subdist_price :: "market \<Rightarrow> nat \<Rightarrow> nat \<Rightarrow> real" where
  "min_subdist_price st d f =
     update_mean_price st f + (mk_transport_cost_coef st * new_road_distance st d f)"













text \<open>
  The price the first loop over \<open>ds_findices[d]\<close> leaves in \<open>da.tanker_price\<close>, written as a
  maximum: the largest \<open>min_subdist_price\<close> over the farm groups from which the consumers of
  the subdistrict together bought a positive volume, and 0.0 when there is none.
\<close>

definition bought_from :: "market \<Rightarrow> nat \<Rightarrow> nat \<Rightarrow> bool" where
  "bought_from st d f = (case subdist_purchase st d f of Inr v \<Rightarrow> 0 < v | Inl e \<Rightarrow> False)"

definition cleared_price :: "market \<Rightarrow> nat \<Rightarrow> real" where
  "cleared_price st d =
     Max (set (0 # map (min_subdist_price st d) (filter (bought_from st d) (ds_findices st d))))"


text \<open>
  The entries the second loop over \<open>ds_findices[d]\<close> appends to the lists
  \<open>final_tanker_prices\<close> and \<open>gw_sales_to_tanker\<close> of farm number \<open>k\<close> for farm group \<open>f\<close>,
  \<open>p\<close> being the tanker price of the subdistrict: when the consumers of the subdistrict bought
  a positive volume from the group and the offers of the group sum to a positive quantity,
  the price \<open>p\<close> less the transport cost, and the share of the purchase in proportion to the
  offer of the farm, once for every occurrence of the farm in the group. \<open>farm_book\<close> lists
  the entries of a farm over all subdistricts and groups in the order of the loops, at the
  cleared price of each subdistrict.
\<close>

definition group_offer :: "market \<Rightarrow> nat \<Rightarrow> real" where
  "group_offer st f =
     sum_list (map (\<lambda>k. f_tanker_offer_quantity (mk_farms st ! k)) (all_fewer_farms st ! f))"

definition purchase_of :: "market \<Rightarrow> nat \<Rightarrow> nat \<Rightarrow> real" where
  "purchase_of st d f = (case subdist_purchase st d f of Inr v \<Rightarrow> v | Inl e \<Rightarrow> 0)"

definition sale_entries :: "real \<Rightarrow> market \<Rightarrow> nat \<Rightarrow> nat \<Rightarrow> nat \<Rightarrow> (real \<times> real) list" where
  "sale_entries p st k d f =
     (if bought_from st d f \<and> 0 < group_offer st f then
        map (\<lambda>k'. (p - mk_transport_cost_coef st * new_road_distance st d f,
                   purchase_of st d f
                     * (f_tanker_offer_quantity (mk_farms st ! k) / group_offer st f)))
          (filter (\<lambda>k'. k' = k) (all_fewer_farms st ! f))
      else [])"

definition farm_book :: "market \<Rightarrow> nat \<Rightarrow> (real \<times> real) list" where
  "farm_book st k =
     concat (map (\<lambda>d. concat (map (sale_entries (cleared_price st d) st k d) (ds_findices st d)))
               (dindices st))"

text \<open>
  The volume consumer \<open>h\<close> bought from the farm groups within reach of subdistrict \<open>d\<close> in the
  stored result.
\<close>

definition bought_total :: "market \<Rightarrow> nat \<Rightarrow> nat \<Rightarrow> real" where
  "bought_total st d h =
     (case sum_err (map (xs_lookup (mk_result_xs st) h) (ds_findices st d)) of
        Inr v \<Rightarrow> v | Inl e \<Rightarrow> 0)"

text \<open>
  The stored result covers the market when it holds a value for every pair of a consumer and
  a farm group within reach of the subdistrict of the consumer: these are the entries of
  \<open>result_xs\<close> the update reads.
\<close>

definition lookups_ok :: "market \<Rightarrow> nat \<Rightarrow> bool" where
  "lookups_ok st d =
     (\<forall>h \<in> set (ds_hindices st d). \<forall>f \<in> set (ds_findices st d).
        case xs_lookup (mk_result_xs st) h f of Inr v \<Rightarrow> True | Inl e \<Rightarrow> False)"

definition covered :: "market \<Rightarrow> bool" where
  "covered st = (\<forall>d \<in> set (dindices st). lookups_ok st d)"

text \<open>The attributes of the solve step, which the update of the agents leaves alone.\<close>

definition solver_record :: "market \<Rightarrow> market_status option \<times> termination_condition option
    \<times> string list \<times> ipopt_options list \<times> ipopt_options \<times> bool" where
  "solver_record st = (mk_solver_status st, mk_termination_condition st, mk_log st,
     mk_solve_calls st, mk_opt_options st, mk_is_tanker_market_first_run st)"


section \<open>Concrete scenarios\<close>

text \<open>
  Backend stubs and small institution states on which the models above are evaluated:
  a backend whose executable is missing, and a backend that returns an infeasible
  termination with the value 7 loaded into every variable.
\<close>

definition solver_unavailable :: "backend \<Rightarrow> solve_outcome" where
  "solver_unavailable b = Raises ApplicationError"

definition all_seven :: var_values where
  "all_seven k = Some 7"

definition solver_infeasible :: "backend \<Rightarrow> solve_outcome" where
  "solver_infeasible b = Returns SolverWarning TcInfeasible all_seven"

definition cwa_state0 :: cwa_state where
  "cwa_state0 = \<lparr>cwa_timestep_idx = 2, cwa_month = 5, cwa_wehdah_volume = 50,
     cwa_wehdah_node_release = 0, cwa_wehdah_release = 0, cwa_wehdah_release_forecast = [],
     cwa_log = []\<rparr>"

definition jva_state0 :: jva_state where
  "jva_state0 = \<lparr>jva_timestep_idx = 2, jva_month = 11,
     jva_model_nodes = [''arab_res'', ''kac_1'', ''so1''],
     jva_model_storage_nodes = [''arab_res''],
     jva_model_links = [(''arab_res'', ''kac_1''), (''kac_1'', ''so1'')],
     jva_volume = (\<lambda>n. 50), jva_release = (\<lambda>n. 0),
     jva_links = [\<lparr>jl_start = ''arab_res'', jl_end = ''kac_1'', jl_flow = 0\<rparr>,
                  \<lparr>jl_start = ''kac_1'', jl_end = ''so1'', jl_flow = 0\<rparr>],
     jva_demand_forecast_per_node = (\<lambda>k. Some 100), jva_node_allocations = Map.empty,
     jva_node_allocations_history = [], jva_node_delivery_history = [],
     jva_node_delivery = Map.empty, jva_log = []\<rparr>"

definition waj_state0 :: waj_state where
  "waj_state0 = \<lparr>waj_solver_status = WajOk, waj_passive = False,
     waj_gov_names = [''amman''], waj_pump_names = [],
     waj_model_nodes = [''amman'', ''maan'', ''karak_jnc'', ''zai''],
     waj_model_demand_nodes = [''amman''],
     waj_model_links = [(''maan'', ''karak_jnc'')],
     waj_demand_forecast = (\<lambda>k. Some 100),
     waj_allocation_forecast = Map.empty, waj_pumping_forecast = Map.empty,
     waj_deficit_forecast = Map.empty, waj_surplus_forecast = Map.empty,
     waj_transfer_forecast = Map.empty, waj_log = []\<rparr>"

definition jva_model0 :: jva_model where
  "jva_model0 = \<lparr>jm_month = 5, jm_non_storage_nodes = [''kac_1'', ''so1''],
     jm_storage_nodes = [''arab_res''], jm_links = [(''kac_1'', ''so1'')],
     jm_cost = (\<lambda>l. 100000), jm_jva_nrw_factor = 1,
     jm_inflow = (\<lambda>k. if fst k = ''kac_1'' then 100 else 0),
     jm_exog_outflow = (\<lambda>k. 0), jm_evap = (\<lambda>k. 0), jm_seepage = (\<lambda>k. 0),
     jm_initial_storage = (\<lambda>n. 50)\<rparr>"

definition jva_sol0 :: assignment where
  "jva_sol0 k = (if fst k = ''Q'' then 100
                 else if fst k = ''delivery'' \<and> fst (snd k) = [''so1''] then 40
                 else if fst k = ''storage'' then 50 else 0)"

definition waj_sol0 :: assignment where
  "waj_sol0 k = (if fst k = ''Q'' then 30 else if fst k = ''P'' then 50
                 else if fst k = ''deficit'' then 20 else 0)"


text \<open>
  The CWA model of a second period (timestep index 1) in May: the reservoir holds 60 and the
  last release was 10, so that \<open>initial_storage\<close> is 60 - 10 + 1145846.0.
\<close>

definition cwa_model1 :: cwa_model where
  "cwa_model1 = \<lparr>cm_month = 5, cm_rem_months = [5, 6, 7, 8, 9, 10, 11, 12, 1, 2, 3, 4],
     cm_storage_nodes = [''wehdah_res''], cm_inflow = (\<lambda>k. 0), cm_evap = (\<lambda>k. 0),
     cm_initial_storage = (\<lambda>n. 1145896)\<rparr>"

definition waj_demand0 :: "node \<times> nat \<Rightarrow> real" where
  "waj_demand0 k = 100"

text \<open>
  The single-coefficient scenario: one node at row 3 with baseline pumping 10 and pumping 12,
  a unit response of -0.5 at lag 0 from row 3 to row 3, a response factor of 1, and a head of
  500 everywhere.
\<close>

definition single_dd :: "nat \<Rightarrow> real \<Rightarrow> nat \<Rightarrow> nat \<Rightarrow> nat \<Rightarrow> real" where
  "single_dd r c i j k = (if i = r \<and> j = r \<and> k = 0 then c else 0)"

definition flat_head :: "nat \<Rightarrow> nat \<Rightarrow> real" where
  "flat_head j s = 500"

definition no_pumping :: "nat \<Rightarrow> real" where
  "no_pumping i = 0"

definition gw_scenario :: gw_engine where
  "gw_scenario = \<lparr>ge_head = flat_head, ge_pumping = no_pumping,
     ge_dd = single_dd 3 (- 1 / 2),
     ge_nodes = [\<lparr>gn_name = ''120201_urb_01'', gn_matrix_position = 3,
                  gn_head_calc = flat_head 3, gn_pumping = 12, gn_baseline_pumping = 10\<rparr>],
     ge_gw_response_factor = 1, ge_urb_01_pumping = None\<rparr>"


text \<open>
  A first run of the tanker market: one subdistrict, two active farms within reach (the second
  with no offer), an active household and a commercial consumer without represented units.
\<close>

definition market0 :: market where
  "market0 = \<lparr>mk_transport_cost_coef = 1 / 10, mk_minimum_farm_offer_constraint = 1,
     mk_max_tanker_sale_distance = 10, mk_road_dist = (\<lambda>town well. 5000),
     mk_policy = NoPolicy, mk_is_tanker_market_first_run = True, mk_fwm = None,
     mk_opt_options = cold_options, mk_solve_calls = [], mk_result_xs = None,
     mk_solver_status = None, mk_termination_condition = None, mk_log = [],
     mk_farms =
       [\<lparr>f_is_active_in_tanker_market = True, f_subdistrict = 1, f_tanker_offer_quantity = 3650,
         f_tanker_water_price = 2, f_gw_sales_to_tanker = [], f_gw_sale_to_tanker = 0,
         f_final_tanker_prices = [], f_final_tanker_price = 0, f_tanker_market_revenue = 0\<rparr>,
        \<lparr>f_is_active_in_tanker_market = True, f_subdistrict = 2, f_tanker_offer_quantity = 0,
         f_tanker_water_price = 3, f_gw_sales_to_tanker = [], f_gw_sale_to_tanker = 0,
         f_final_tanker_prices = [], f_final_tanker_price = 0, f_tanker_market_revenue = 0\<rparr>],
     mk_subdists =
       [\<lparr>d_subdist_code = 1, d_tanker_price = 0, d_max_tanker_distance = 0,
         d_tanker_distances = []\<rparr>],
     mk_consumers =
       [\<lparr>a_subdist = 0, a_commercial = False, a_represented_units = 10, a_piped_consumption = 5,
         a_sigma = 1, a_sigma2 = 1, a_tanker_consumption = 0, a_final_tanker_price = 0,
         a_tanker_expenditure = 0, a_expenditure = 0, a_tanker_distance_avg = 0,
         a_tanker_distances = [], a_tanker_sales_per_farm = []\<rparr>,
        \<lparr>a_subdist = 0, a_commercial = True, a_represented_units = 0, a_piped_consumption = 5,
         a_sigma = 1, a_sigma2 = 1, a_tanker_consumption = 0, a_final_tanker_price = 0,
         a_tanker_expenditure = 0, a_expenditure = 0, a_tanker_distance_avg = 0,
         a_tanker_distances = [], a_tanker_sales_per_farm = []\<rparr>]\<rparr>"


text \<open>
  A cascade that ends in failure without an exception leaving it: ipopt raises a caught
  exception or returns a result that is not optimal, and cplex returns a result that loads
  (its solver status is ok or warning) and is not optimal, its instance holding the values
  \<open>v\<close>.
\<close>

definition failed_cascade :: "(backend \<Rightarrow> solve_outcome) \<Rightarrow> var_values \<Rightarrow> bool" where
  "failed_cascade solver v =
     ((case solver Ipopt of
         Raises e \<Rightarrow> caught e
       | Returns s t w \<Rightarrow> (s, t) \<noteq> (SolverOk, TcOptimal))
      \<and> (case solver Cplex of
            Raises e \<Rightarrow> False
          | Returns s t w \<Rightarrow>
              (s = SolverOk \<or> s = SolverWarning) \<and> (s, t) \<noteq> (SolverOk, TcOptimal) \<and> w = v))"

text \<open>
  The tanker market after a first run in which ipopt returned the volumes \<open>xs_solved\<close>: the
  state of a later, warm-started run with stored results.
\<close>

declare ln_real_def [code del]




text \<open>
  A first run with two subdistricts: the second farm is 50 km from the first subdistrict and
  in the second subdistrict itself, so that it is within reach of the second subdistrict only
  and is not paired with the consumers of the first; the second consumer, of the first
  subdistrict, has no represented units. In the assignment \<open>xs3\<close> that consumer takes 5 from
  the second farm.
\<close>

definition market3 :: market where
  "market3 = market0\<lparr>
     mk_road_dist := (\<lambda>town well. if town = 1 \<and> well = 2 then 50000 else 5000),
     mk_farms :=
       [\<lparr>f_is_active_in_tanker_market = True, f_subdistrict = 1, f_tanker_offer_quantity = 3650,
         f_tanker_water_price = 2, f_gw_sales_to_tanker = [], f_gw_sale_to_tanker = 0,
         f_final_tanker_prices = [], f_final_tanker_price = 0, f_tanker_market_revenue = 0\<rparr>,
        \<lparr>f_is_active_in_tanker_market = True, f_subdistrict = 2, f_tanker_offer_quantity = 3650,
         f_tanker_water_price = 3, f_gw_sales_to_tanker = [], f_gw_sale_to_tanker = 0,
         f_final_tanker_prices = [], f_final_tanker_price = 0, f_tanker_market_revenue = 0\<rparr>],
     mk_subdists :=
       [\<lparr>d_subdist_code = 1, d_tanker_price = 0, d_max_tanker_distance = 0,
         d_tanker_distances = []\<rparr>,
        \<lparr>d_subdist_code = 2, d_tanker_price = 0, d_max_tanker_distance = 0,
         d_tanker_distances = []\<rparr>],
     mk_consumers :=
       [\<lparr>a_subdist = 0, a_commercial = False, a_represented_units = 10, a_piped_consumption = 5,
         a_sigma = 1, a_sigma2 = 1, a_tanker_consumption = 0, a_final_tanker_price = 0,
         a_tanker_expenditure = 0, a_expenditure = 0, a_tanker_distance_avg = 0,
         a_tanker_distances = [], a_tanker_sales_per_farm = []\<rparr>,
        \<lparr>a_subdist = 0, a_commercial = True, a_represented_units = 0, a_piped_consumption = 5,
         a_sigma = 1, a_sigma2 = 1, a_tanker_consumption = 0, a_final_tanker_price = 0,
         a_tanker_expenditure = 0, a_expenditure = 0, a_tanker_distance_avg = 0,
         a_tanker_distances = [], a_tanker_sales_per_farm = []\<rparr>,
        \<lparr>a_subdist = 1, a_commercial = False, a_represented_units = 10, a_piped_consumption = 5,
         a_sigma = 1, a_sigma2 = 1, a_tanker_consumption = 0, a_final_tanker_price = 0,
         a_tanker_expenditure = 0, a_expenditure = 0, a_tanker_distance_avg = 0,
         a_tanker_distances = [], a_tanker_sales_per_farm = []\<rparr>]\<rparr>"

definition xs3 :: "nat \<times> nat \<Rightarrow> real" where
  "xs3 k = (if k = (0, 0) then 30 else if k = (1, 1) then 5 else if k = (2, 1) then 20 else 0)"


section \<open>Properties of the horizon index sets\<close>

lemma set_map_Suc_upt: "set (map Suc [0..<n]) = {1..n}"
  by (auto simp: image_iff)

lemma cwa_rem_months_value:
  assumes "1 \<le> m" "m \<le> 12"
  shows "cwa_rem_months m = Inr ([m..<13] @ map Suc [0..<m - 1])"
proof (cases "m = 12")
  case True
  then show ?thesis by (simp add: cwa_rem_months_def upt_rec)
next
  case False
  with assms have lt: "m < 13" by simp
  have eq: "[m..<13] = m # [Suc m..<13]" using lt by (simp add: upt_rec)
  show ?thesis
  proof (cases "m = 1")
    case True
    then show ?thesis using False by (simp add: cwa_rem_months_def upt_rec)
  next
    case m1: False
    show ?thesis using False m1 lt
      by (simp add: cwa_rem_months_def eq del: upt_Suc)
  qed
qed

lemma set_cwa_rem:
  assumes "1 \<le> m" "m \<le> 12"
  shows "set ([m..<13] @ map Suc [0..<m - 1]) = {1..12}"
  using assms by (auto simp: set_map_Suc_upt simp del: map_Suc_upt)

text \<open>
  C3 (counterexample). In the CWA model of May in a year after the first, January is both a
  remaining month and a past month, so the two sets do not partition the year.
\<close>

theorem horizon_partition_counterexample:
  "cwa_rem_months 5 = Inr [5, 6, 7, 8, 9, 10, 11, 12, 1, 2, 3, 4]
   \<and> past_months 5 False = [12, 1, 2, 3, 4]
   \<and> 1 \<in> set [5, 6, 7, 8, 9, 10, 11, 12, 1, 2, 3, 4 :: nat] \<inter> set (past_months 5 False)"
  by (simp add: cwa_rem_months_def past_months_def upt_rec)

text \<open>
  C3 (amended). For a calendar month \<open>m\<close> from 1 to 12:
  the CWA remaining months are all twelve months, starting at \<open>m\<close>;
  the JVA remaining months are \<open>m\<close> to 11 when \<open>m < 12\<close> and all twelve months, starting at 12,
  when \<open>m = 12\<close>; the past months are empty when \<open>m = 12\<close>, otherwise January to \<open>m - 1\<close>,
  preceded by December in every year after the first. The JVA sets partition the year when
  \<open>m = 12\<close> and, for \<open>m < 12\<close>, in every year after the first.
\<close>

theorem horizon_months:
  assumes "1 \<le> m" "m \<le> 12"
  shows "cwa_rem_months m = Inr ([m..<13] @ map Suc [0..<m - 1])
       \<and> set ([m..<13] @ map Suc [0..<m - 1]) = {1..12}
       \<and> jva_rem_months m = (if m = 12 then [12, 1, 2, 3, 4, 5, 6, 7, 8, 9, 10, 11] else [m..<12])
       \<and> set (past_months m fy) =
           (if m = 12 then {} else (if fy then {} else {12}) \<union> {1..<m})
       \<and> ((m = 12 \<or> \<not> fy) \<longrightarrow>
            set (jva_rem_months m) \<union> set (past_months m fy) = {1..12}
            \<and> set (jva_rem_months m) \<inter> set (past_months m fy) = {})"
proof -
  have pm: "set (past_months m fy) =
           (if m = 12 then {} else (if fy then {} else {12}) \<union> {1..<m})"
    using assms by (auto simp: past_months_def set_map_Suc_upt)
  have jv: "jva_rem_months m = (if m = 12 then [12, 1, 2, 3, 4, 5, 6, 7, 8, 9, 10, 11] else [m..<12])"
    by (simp add: jva_rem_months_def upt_rec)
  have js: "set (jva_rem_months m) = (if m = 12 then {1..12} else {m..<12})"
  proof (cases "m = 12")
    case True
    have "set [12, 1, 2, 3, 4, 5, 6, 7, 8, 9, 10, 11] = {1..12::nat}"
      by (auto; arith)
    with True show ?thesis unfolding jv by simp
  next
    case False
    then show ?thesis unfolding jv by simp
  qed
  have part: "(m = 12 \<or> \<not> fy) \<longrightarrow>
            set (jva_rem_months m) \<union> set (past_months m fy) = {1..12}
            \<and> set (jva_rem_months m) \<inter> set (past_months m fy) = {}"
    unfolding pm js using assms by auto
  show ?thesis
    using cwa_rem_months_value[OF assms] set_cwa_rem[OF assms] pm jv part by blast
qed

theorem horizon_months_witness:
  "cwa_rem_months 3 = Inr [3, 4, 5, 6, 7, 8, 9, 10, 11, 12, 1, 2]
   \<and> jva_rem_months 3 = [3, 4, 5, 6, 7, 8, 9, 10, 11]
   \<and> set (past_months 3 False) = {12, 1, 2}
   \<and> set (jva_rem_months 3) \<union> set (past_months 3 False) = {1..12}
   \<and> set (jva_rem_months 3) \<inter> set (past_months 3 False) = {}"
proof -
  have a: "(1::nat) \<le> 3" and b: "(3::nat) \<le> 12" by simp_all
  have e1: "[3..<13] @ map Suc [0..<3 - 1] = [3, 4, 5, 6, 7, 8, 9, 10, 11, 12, 1, 2 :: nat]"
    by (simp add: upt_rec)
  have e2: "[3..<12] = [3, 4, 5, 6, 7, 8, 9, 10, 11 :: nat]"
    by (simp add: upt_rec)
  show ?thesis
    using horizon_months[OF a b, of False] e1 e2 by auto
qed


section \<open>Properties of the solver cascade and of the extraction\<close>

lemma failed_cascade_attempts:
  assumes "failed_cascade solver v"
  shows "map_sum id cr_attempts (cwa_cascade solver lg) = Inr [Ipopt, Cplex]"
    and "map_sum id cr_attempts (jva_cascade solver lg) = Inr [Ipopt, Cplex]"
    and "map_sum id (\<lambda>r. (cr_attempts r, cr_solver_status r)) (waj_cascade WajOk solver lg)
         = Inr ([Ipopt, Cplex], WajNotOptimal)"
  using assms
  by (auto simp: failed_cascade_def cwa_cascade_def jva_cascade_def ipopt_then_cplex_def
      retry_cplex_def waj_cascade_def waj_retry_cplex_def bind_err_def load_from_def caught_def
      split: solve_outcome.splits)

text \<open>
  C1. When ipopt and cplex both raise ApplicationError (neither executable can be run), the
  exception of the cplex call leaves CWA.set_allocation and JVA.set_allocation_forecast: the
  cplex retry of these two institutions is outside of any \<open>try\<close>. WAJ catches it, sets its
  status to not_optimal, and then raises TypeError while summing the values of the unsolved
  instance.
\<close>

theorem cascade_exception_escapes:
  "cwa_set_allocation solver_unavailable cwa_state0 = Inl ApplicationError
   \<and> jva_set_allocation_forecast solver_unavailable jva_state0 = Inl ApplicationError
   \<and> map_sum id (\<lambda>r. (cr_attempts r, cr_solver_status r))
        (waj_cascade WajOk solver_unavailable []) = Inr ([Ipopt, Cplex], WajNotOptimal)
   \<and> map_sum id waj_solver_status
        (waj_set_allocation_forecast solver_unavailable waj_state0) = Inl TypeError"
proof -
  have "cwa_set_allocation solver_unavailable cwa_state0 = Inl ApplicationError"
    by (simp add: cwa_set_allocation_def cwa_state0_def cwa_rem_months_def upt_rec bind_err_def
        cwa_cascade_def ipopt_then_cplex_def solver_unavailable_def caught_def retry_cplex_def)
  moreover have "jva_set_allocation_forecast solver_unavailable jva_state0 = Inl ApplicationError"
    by (simp add: jva_set_allocation_forecast_def bind_err_def jva_cascade_def
        ipopt_then_cplex_def solver_unavailable_def caught_def retry_cplex_def)
  moreover have "map_sum id (\<lambda>r. (cr_attempts r, cr_solver_status r))
        (waj_cascade WajOk solver_unavailable []) = Inr ([Ipopt, Cplex], WajNotOptimal)"
    by code_simp
  moreover have "map_sum id waj_solver_status
        (waj_set_allocation_forecast solver_unavailable waj_state0) = Inl TypeError"
    by code_simp
  ultimately show ?thesis by simp
qed

text \<open>
  C4 (counterexample). CWA in May of a later period, the reservoir holding 50: ipopt and cplex
  both return, with the solver status warning, an infeasible termination with values loaded.
  The call logs the retry and the failure, and the volume and the release of the reservoir
  and the release forecast of the institution hold the values of the cplex instance. WAJ,
  with the nodes and the link its constraints name: the call ends with the status
  not_optimal, and the deficit, pumping and allocation forecasts, empty before the call, hold
  the values of the cplex instance.
\<close>

theorem extraction_after_failure_counterexample:
  "map_sum id (\<lambda>st. (cwa_wehdah_volume st, cwa_wehdah_node_release st,
                     cwa_wehdah_release_forecast st, cwa_log st))
     (cwa_set_allocation solver_infeasible cwa_state0)
   = Inr (7, 7, replicate 12 7, ['' ... retrying'', ''cwa failed to solve''])
   \<and> cwa_wehdah_volume cwa_state0 = 50
   \<and> map_sum id (\<lambda>st. (waj_solver_status st, waj_deficit_forecast st (''amman'', 1),
                     waj_pumping_forecast st (''amman'', 1),
                     waj_allocation_forecast st (''amman'', 1)))
     (waj_set_allocation_forecast solver_infeasible waj_state0)
   = Inr (WajNotOptimal, Some 7, Some 7, Some 93)
   \<and> waj_deficit_forecast waj_state0 (''amman'', 1) = None"
  by code_simp

text \<open>
  C4 (amended). In every institution, when the cascade ends in failure without raising (ipopt
  raised a caught exception or returned a result that is not optimal, and cplex returned,
  with the solver status ok or warning, a result that is not optimal), the failure is logged
  (WAJ, called with status ok and not passive, also sets its status to not_optimal after
  clearing its forecasts) and the extraction then runs, as after a success, on the values
  held by the cplex instance: the status is not consulted before the values are read.
\<close>

theorem extraction_is_unconditional:
  assumes f: "failed_cascade solver v"
  shows "cwa_set_allocation solver st =
           bind_err (cwa_rem_months (cwa_month st)) (\<lambda>rem_months.
             cwa_extract rem_months v
               (st\<lparr>cwa_log := cwa_log st @ ['' ... retrying'', ''cwa failed to solve'']\<rparr>))
       \<and> jva_set_allocation_forecast solver jst =
           jva_extract (jva_rem_months (jva_month jst)) v
             (jst\<lparr>jva_log := jva_log jst @ [''jva failed to solve with ipopt ... retrying'',
                                              ''jva failed to solve'']\<rparr>)
       \<and> (waj_solver_status wst = WajOk \<and> \<not> waj_passive wst \<longrightarrow>
          waj_set_allocation_forecast solver wst =
           waj_extract v
             (wst\<lparr>waj_allocation_forecast := Map.empty, waj_pumping_forecast := Map.empty,
                   waj_transfer_forecast := Map.empty, waj_deficit_forecast := Map.empty,
                   waj_surplus_forecast := Map.empty,
                   waj_log := waj_log wst @ [''waj failed to solve using ipopt ... retrying'',
                                             ''waj failed to solve using cplex''],
                   waj_solver_status := WajNotOptimal\<rparr>))"
  using f
  by (auto simp: failed_cascade_def cwa_set_allocation_def jva_set_allocation_forecast_def
      waj_set_allocation_forecast_def cwa_cascade_def jva_cascade_def ipopt_then_cplex_def
      retry_cplex_def waj_cascade_def waj_retry_cplex_def bind_err_def Let_def load_from_def
      caught_def
      split: solve_outcome.splits sum.splits)

theorem extraction_is_unconditional_witness:
  "failed_cascade solver_infeasible all_seven
   \<and> map_sum id (\<lambda>st. (cwa_wehdah_volume st, cwa_wehdah_release st, cwa_log st))
       (cwa_set_allocation solver_infeasible cwa_state0)
     = Inr (7, 7, ['' ... retrying'', ''cwa failed to solve''])
   \<and> map_sum id (\<lambda>st. (jva_release st ''arab_res'', map jl_flow (jva_links st),
                        jva_node_delivery st ''so1''))
       (jva_set_allocation_forecast solver_infeasible jva_state0)
     = Inr (7, [7, 7], Some (Some 7))
   \<and> map_sum id (\<lambda>st. (waj_solver_status st, waj_allocation_forecast st (''amman'', 1)))
       (waj_set_allocation_forecast solver_infeasible waj_state0)
     = Inr (WajNotOptimal, Some 93)"
proof -
  have f: "failed_cascade solver_infeasible all_seven"
    by (simp add: failed_cascade_def solver_infeasible_def)
  have w: "waj_solver_status waj_state0 = WajOk \<and> \<not> waj_passive waj_state0"
    by (simp add: waj_state0_def)
  note th = extraction_is_unconditional[OF f, of cwa_state0 jva_state0 waj_state0]
  have c: "map_sum id (\<lambda>st. (cwa_wehdah_volume st, cwa_wehdah_release st, cwa_log st))
       (bind_err (cwa_rem_months (cwa_month cwa_state0)) (\<lambda>rem_months.
             cwa_extract rem_months all_seven
               (cwa_state0\<lparr>cwa_log := cwa_log cwa_state0 @
                  ['' ... retrying'', ''cwa failed to solve'']\<rparr>)))
     = Inr (7, 7, ['' ... retrying'', ''cwa failed to solve''])"
    by code_simp
  have j: "map_sum id (\<lambda>st. (jva_release st ''arab_res'', map jl_flow (jva_links st),
                        jva_node_delivery st ''so1''))
       (jva_extract (jva_rem_months (jva_month jva_state0)) all_seven
             (jva_state0\<lparr>jva_log := jva_log jva_state0 @
                [''jva failed to solve with ipopt ... retrying'', ''jva failed to solve'']\<rparr>))
     = Inr (7, [7, 7], Some (Some 7))"
    by code_simp
  have a: "map_sum id (\<lambda>st. (waj_solver_status st, waj_allocation_forecast st (''amman'', 1)))
       (waj_extract all_seven
             (waj_state0\<lparr>waj_allocation_forecast := Map.empty, waj_pumping_forecast := Map.empty,
                   waj_transfer_forecast := Map.empty, waj_deficit_forecast := Map.empty,
                   waj_surplus_forecast := Map.empty,
                   waj_log := waj_log waj_state0 @
                     [''waj failed to solve using ipopt ... retrying'',
                      ''waj failed to solve using cplex''],
                   waj_solver_status := WajNotOptimal\<rparr>))
     = Inr (WajNotOptimal, Some 93)"
    by code_simp
  show ?thesis using f w th c j a by simp
qed


section \<open>Properties of the model constraints\<close>

lemma get_default_dict_append:
  "get_default (dict_append d k x) k' = (if k' = k then get_default d k @ [x] else get_default d k')"
  by (auto simp: get_default_def dict_append_def split: option.splits list.splits)

lemma link_dicts_get:
  "get_default (fst (link_dicts ls (i, out))) n = get_default i n @ filter (\<lambda>l. snd l = n) ls
   \<and> get_default (snd (link_dicts ls (i, out))) n = get_default out n @ filter (\<lambda>l. fst l = n) ls"
proof (induction ls arbitrary: i out)
  case Nil
  then show ?case by simp
next
  case (Cons l ls)
  show ?case
    by (simp add: Cons.IH get_default_dict_append)
qed

lemma incoming_links_filter:
  "get_default (incoming_links links) n = filter (\<lambda>l. snd l = n) links"
  using link_dicts_get[of links Map.empty Map.empty n]
  by (simp add: incoming_links_def get_default_def)

lemma outgoing_links_filter:
  "get_default (outgoing_links links) n = filter (\<lambda>l. fst l = n) links"
  using link_dicts_get[of links Map.empty Map.empty n]
  by (simp add: outgoing_links_def get_default_def)

lemma sum_list_minus: "(\<Sum>x\<leftarrow>xs. f x - g x) = (\<Sum>x\<leftarrow>xs. f x) - (\<Sum>x\<leftarrow>xs. (g x :: real))"
  by (induction xs) auto

lemma jva_net_inflow_eq:
  "jva_net_inflow md sol (filter (\<lambda>l. snd l = node) (jm_links md)) month =
     link_inflow (jm_links md) sol node month - link_loss md sol node month"
  unfolding jva_net_inflow_def link_inflow_def link_loss_def
  by (simp add: sum_list_minus[symmetric] case_prod_unfold)



text \<open>
  C2 (counterexample). A JVA model with one link of length 100000 from kac_1 to so1 and
  \<open>jva_nrw_factor = 1\<close>: the assignment with a flow of 100 on the link and a delivery of 40 at
  so1 satisfies every mass-balance constraint of the model, and the balance of the total link
  inflow at so1 is 100 - 40 = 60, not 0.
\<close>

theorem mass_balance_counterexample:
  "m_mass_balance_demand_const jva_model0 jva_sol0
   \<and> \<not> spec_mass_balance (link_inflow (jm_links jva_model0) jva_sol0 ''so1'' 5)
          (jm_inflow jva_model0 (''so1'', 5)) 0 0
          (link_outflow (jm_links jva_model0) jva_sol0 ''so1'' 5)
          (jva_sol0 (''delivery'', [''so1''], 5)) (jm_exog_outflow jva_model0 (''so1'', 5))"
  by code_simp

text \<open>
  C2 (amended). Every solution that satisfies the mass-balance constraints of the WAJ model
  satisfies, at every demand node and every month from 1 to 12, the balance of the
  specification with the total link inflow, no exogenous inflow, the extraction P, the signed
  deficit, the total link outflow, the demand forecast in the place of the delivery, and no
  exogenous outflow. Every solution that satisfies the mass-balance constraints of the JVA
  model satisfies, at every non-storage node and every remaining month, the balance with the
  link inflow net of the conveyance loss (flow times link length times 0.000006 times
  \<open>jva_nrw_factor\<close>), the exogenous inflow, no extraction, no deficit, the total link outflow,
  the delivery and the exogenous outflow.
\<close>

theorem mass_balance:
  "(waj_mass_balance_demand_const demand_nodes links demand sol \<longrightarrow>
      (\<forall>node \<in> set demand_nodes. \<forall>month \<in> {1..12}.
         spec_mass_balance (link_inflow links sol node month) 0 (sol (''P'', [node], month))
           (sol (''deficit'', [node], month)) (link_outflow links sol node month)
           (demand (node, month)) 0))
   \<and> (m_mass_balance_demand_const md sol' \<longrightarrow>
      (\<forall>node \<in> set (jm_non_storage_nodes md). \<forall>month \<in> set (jva_rem_months (jm_month md)).
         spec_mass_balance
           (link_inflow (jm_links md) sol' node month - link_loss md sol' node month)
           (jm_inflow md (node, month)) 0 0 (link_outflow (jm_links md) sol' node month)
           (sol' (''delivery'', [node], month)) (jm_exog_outflow md (node, month))))"
proof -
  have m: "set waj_months = {1..12}" by (auto simp: waj_months_def)
  have a: "waj_mass_balance_demand links demand sol node month \<Longrightarrow>
      spec_mass_balance (link_inflow links sol node month) 0 (sol (''P'', [node], month))
           (sol (''deficit'', [node], month)) (link_outflow links sol node month)
           (demand (node, month)) 0" for node month
    by (simp add: waj_mass_balance_demand_def spec_mass_balance_def Let_def
        incoming_links_filter outgoing_links_filter link_inflow_def link_outflow_def)
  have b: "m_mass_balance_demand md sol' node month \<Longrightarrow>
         spec_mass_balance
           (link_inflow (jm_links md) sol' node month - link_loss md sol' node month)
           (jm_inflow md (node, month)) 0 0 (link_outflow (jm_links md) sol' node month)
           (sol' (''delivery'', [node], month)) (jm_exog_outflow md (node, month))" for node month
    by (simp add: m_mass_balance_demand_def spec_mass_balance_def Let_def
        incoming_links_filter outgoing_links_filter jva_net_inflow_eq link_outflow_def)
  show ?thesis
    using a b by (auto simp: waj_mass_balance_demand_const_def m m_mass_balance_demand_const_def)
qed

theorem mass_balance_witness:
  "waj_mass_balance_demand_const [''amman''] [(''zai'', ''amman'')] waj_demand0 waj_sol0
   \<and> m_mass_balance_demand_const jva_model0 jva_sol0
   \<and> spec_mass_balance 30 0 50 20 0 100 0
   \<and> spec_mass_balance (100 - 60) 0 0 0 0 40 0"
proof -
  have h1: "waj_mass_balance_demand_const [''amman''] [(''zai'', ''amman'')] waj_demand0 waj_sol0"
    by code_simp
  have h2: "m_mass_balance_demand_const jva_model0 jva_sol0"
    by code_simp
  have e: "link_inflow [(''zai'', ''amman'')] waj_sol0 ''amman'' 1 = 30"
     "waj_sol0 (''P'', [''amman''], 1) = 50" "waj_sol0 (''deficit'', [''amman''], 1) = 20"
     "link_outflow [(''zai'', ''amman'')] waj_sol0 ''amman'' 1 = 0"
     "waj_demand0 (''amman'', 1) = 100"
     "link_inflow (jm_links jva_model0) jva_sol0 ''so1'' 5 = 100"
     "link_loss jva_model0 jva_sol0 ''so1'' 5 = 60"
     "jm_inflow jva_model0 (''so1'', 5) = 0"
     "link_outflow (jm_links jva_model0) jva_sol0 ''so1'' 5 = 0"
     "jva_sol0 (''delivery'', [''so1''], 5) = 40"
     "jm_exog_outflow jva_model0 (''so1'', 5) = 0"
    by code_simp+
  have i1: "''amman'' \<in> set [''amman'']" "(1::nat) \<in> {1..12}" by simp_all
  have i2: "''so1'' \<in> set (jm_non_storage_nodes jva_model0)"
     "5 \<in> set (jva_rem_months (jm_month jva_model0))" by code_simp+
  from mass_balance[of "[''amman'']" "[(''zai'', ''amman'')]" waj_demand0 waj_sol0 jva_model0 jva_sol0]
  have "spec_mass_balance (link_inflow [(''zai'', ''amman'')] waj_sol0 ''amman'' 1) 0
           (waj_sol0 (''P'', [''amman''], 1)) (waj_sol0 (''deficit'', [''amman''], 1))
           (link_outflow [(''zai'', ''amman'')] waj_sol0 ''amman'' 1) (waj_demand0 (''amman'', 1)) 0"
    and "spec_mass_balance
           (link_inflow (jm_links jva_model0) jva_sol0 ''so1'' 5 - link_loss jva_model0 jva_sol0 ''so1'' 5)
           (jm_inflow jva_model0 (''so1'', 5)) 0 0 (link_outflow (jm_links jva_model0) jva_sol0 ''so1'' 5)
           (jva_sol0 (''delivery'', [''so1''], 5)) (jm_exog_outflow jva_model0 (''so1'', 5))"
    using h1 h2 i1 i2 by blast+
  then show ?thesis using h1 h2 unfolding e by simp
qed






text \<open>
  C5 (counterexample). In the second period the anchor of the CWA model is not the observed
  volume: with a volume of 60 and a last release of 10 the initial storage is 1145896, an
  assignment with a storage of 60 in the current month violates the storage constraint of
  that month, and one with 1145896 satisfies it.
\<close>

theorem storage_anchor_counterexample:
  "cwa_initial_storage 1 60 [10] [] = Inr (cm_initial_storage cwa_model1 ''wehdah_res'')
   \<and> cm_initial_storage cwa_model1 ''wehdah_res'' = 1145896
   \<and> \<not> cwa_res_balance_storage cwa_model1 (\<lambda>k. 60) ''wehdah_res'' (cm_month cwa_model1)
   \<and> cwa_res_balance_storage cwa_model1 (\<lambda>k. 1145896) ''wehdah_res'' (cm_month cwa_model1)"
  by (simp add: cwa_initial_storage_def last_item_def bind_err_def cwa_model1_def
      cwa_res_balance_storage_def)


section \<open>Properties of the groundwater response engine\<close>

lemma consolidate_head:
  assumes "gn_head_calc i = head (gn_matrix_position i)"
    and "consolidate u i (head, p) = Inr (h', p')"
  shows "h' = head"
  using assms
  by (auto simp: consolidate_def Let_def bind_err_def split: if_splits option.splits sum.splits)

lemma fold_consolidate_head:
  assumes "\<forall>i \<in> set nodes. gn_head_calc i = head (gn_matrix_position i)"
    and "fold_err (consolidate u) nodes (head, p) = Inr (h', p')"
  shows "h' = head"
  using assms
proof (induction nodes arbitrary: p)
  case Nil
  then show ?case by simp
next
  case (Cons i nodes)
  from Cons.prems(2) obtain h1 p1 where
    c: "consolidate u i (head, p) = Inr (h1, p1)" and
    f: "fold_err (consolidate u) nodes (h1, p1) = Inr (h', p')"
    by (auto split: sum.splits)
  from Cons.prems(1) c have "h1 = head" by (auto dest: consolidate_head)
  with Cons.IH[of p1] Cons.prems(1) f show ?case by simp
qed

lemma addhead_past:
  assumes "1 \<le> idx" "s < idx"
  shows "addhead dd p f (Suc idx) j s = 0"
  using assms by (simp add: addhead_def)

text \<open>
  C6. In a run at timestep \<open>t = idx + 1\<close> with \<open>t \<ge> 2\<close>, on an engine whose nodes carry the
  head rows of the engine, every head entry of a month index before \<open>idx\<close> keeps its value, in
  the head array and in the head row copied back to each node, and the nodes again carry the
  head rows of the engine.
\<close>

theorem head_append_only:
  assumes "1 \<le> idx" and "nodes_consistent st" and "run idx st = Inr st'"
  shows "(\<forall>j s. s < idx \<longrightarrow> ge_head st' j s = ge_head st j s)
       \<and> (\<forall>i \<in> set (ge_nodes st'). \<forall>s. s < idx \<longrightarrow>
             gn_head_calc i s = ge_head st (gn_matrix_position i) s)
       \<and> nodes_consistent st'"
proof -
  from assms(3) obtain h p where
    f: "fold_err (consolidate (ge_urb_01_pumping st)) (ge_nodes st) (ge_head st, ge_pumping st)
          = Inr (h, p)"
    by (auto simp: run_def bind_err_def Let_def split: sum.splits)
  have h: "h = ge_head st"
    using fold_consolidate_head[OF _ f] assms(2) by (simp add: nodes_consistent_def)
  define head' where "head' = (\<lambda>j s. if j < n_locs \<and> s < n_times
                             then ge_head st j s + addhead (ge_dd st) p (ge_gw_response_factor st)
                                              (Suc idx) j s
                             else ge_head st j s)"
  have st': "st' = st\<lparr>ge_head := head', ge_pumping := p,
                      ge_nodes := map (\<lambda>i. i\<lparr>gn_head_calc := head' (gn_matrix_position i)\<rparr>)
                                    (ge_nodes st)\<rparr>"
    using assms(3) f h
    by (auto simp: run_def bind_err_def Let_def head'_def split: if_splits)
  have past: "head' j s = ge_head st j s" if "s < idx" for j s
    using that assms(1) by (simp add: head'_def addhead_past)
  show ?thesis
    using past by (auto simp: st' nodes_consistent_def)
qed


lemma sum_list_delta:
  assumes "r < n"
  shows "(\<Sum>i \<leftarrow> [0..<n]. if i = r then f i else (0::real)) = f r"
proof -
  have "(\<Sum>i \<leftarrow> [0..<n]. if i = r then f i else 0) = (\<Sum>i \<in> {0..<n}. if i = r then f i else 0)"
    by (simp add: interv_sum_list_conv_sum_set_nat)
  also have "\<dots> = f r" using assms by simp
  finally show ?thesis .
qed

lemma einsum_single:
  assumes "r < n_locs"
  shows "einsum (single_dd r c) p j k = (if j = r \<and> k = 0 then c * p r else 0)"
proof -
  have "einsum (single_dd r c) p j k =
        (\<Sum>i \<leftarrow> [0..<n_locs]. if i = r then (if j = r \<and> k = 0 then c * p i else 0) else 0)"
    unfolding einsum_def single_dd_def
    by (intro arg_cong[where f = sum_list] map_cong) auto
  also have "\<dots> = (if j = r \<and> k = 0 then c * p r else 0)"
    using assms by (rule sum_list_delta)
  finally show ?thesis .
qed

lemma addhead_single:
  assumes "r < n_locs"
  shows "addhead (single_dd r c) p f (Suc idx) j s = (if j = r \<and> s = idx then - (c * (p r * f)) else 0)"
  using assms by (auto simp: addhead_def einsum_single)

text \<open>
  C7 (amended). In the single-coefficient scenario (one node with an ordinary name at row
  \<open>r\<close>, baseline pumping 10, pumping 12, a unit response \<open>c\<close> at lag 0 from row \<open>r\<close> to row
  \<open>r\<close> and zero elsewhere), one run at month index \<open>idx\<close> changes the head of row \<open>r\<close> at
  \<open>idx\<close> by \<open>- c * 200 * gw_response_factor\<close> and leaves every other head entry unchanged:
  with \<open>c = -0.5\<close> and a factor of 1 the head rises by 100.
\<close>

theorem single_coefficient_response:
  assumes "ge_nodes st = [i]" and "gn_name i \<notin> set special_names"
    and "gn_matrix_position i = r" and "r < n_locs"
    and "gn_pumping i = 12" and "gn_baseline_pumping i = 10"
    and "ge_dd st = single_dd r c" and "gn_head_calc i = ge_head st r" and "idx < n_times"
  shows "map_sum id ge_head (run idx st) =
           Inr (\<lambda>j s. if j = r \<and> s = idx
                       then ge_head st r idx - c * 200 * ge_gw_response_factor st
                       else ge_head st j s)"
proof -
  have hr: "(ge_head st)(r := ge_head st r) = ge_head st" by auto
  have c: "fold_err (consolidate (ge_urb_01_pumping st)) (ge_nodes st) (ge_head st, ge_pumping st)
           = Inr (ge_head st, (ge_pumping st)(r := 200))"
    using assms(1-6,8)
    by (simp add: consolidate_def Let_def bind_err_def special_names_def hr)
  have t: "\<not> (n_times + 1 < idx + 1 \<and> idx + 1 < 2 * n_times)" using assms(9) by simp
  show ?thesis
    unfolding run_def Let_def c bind_err_def
    using t assms(4,9)
    by (auto simp: assms(7) addhead_single intro!: ext)
qed

theorem head_append_only_witness:
  "nodes_consistent gw_scenario
   \<and> map_sum id (\<lambda>st. (ge_head st 3 3, ge_head st 3 4)) (run 4 gw_scenario) = Inr (500, 600)
   \<and> ge_head gw_scenario 3 3 = 500"
proof -
  have c: "nodes_consistent gw_scenario"
    by (simp add: nodes_consistent_def gw_scenario_def)
  have r: "map_sum id (\<lambda>st. (ge_head st 3 3, ge_head st 3 4)) (run 4 gw_scenario) = Inr (500, 600)"
    by code_simp
  then obtain st' where st': "run 4 gw_scenario = Inr st'"
    by (cases "run 4 gw_scenario") auto
  have "ge_head st' 3 3 = ge_head gw_scenario 3 3"
    using head_append_only[OF _ c st'] by simp
  moreover have "ge_head gw_scenario 3 3 = 500" by code_simp
  ultimately show ?thesis using c r by simp
qed

text \<open>
  C7 (counterexample). In the scenario with the coefficient -0.5 and a response factor of 1,
  the head of the month, 500 before the run, is 600 after it: it rises by 100, where the claim
  has it fall by 100.
\<close>

theorem single_coefficient_counterexample:
  "ge_head gw_scenario 3 4 = 500
   \<and> map_sum id (\<lambda>st. ge_head st 3 4) (run 4 gw_scenario) = Inr 600
   \<and> map_sum id (\<lambda>st. ge_head st 3 4) (run 4 gw_scenario) \<noteq> Inr (500 - 1 / 2 * 200)"
  by code_simp

theorem single_coefficient_response_witness:
  "map_sum id (\<lambda>st. (ge_head st 3 4, ge_head st 3 3, ge_head st 3 5, ge_head st 7 4))
     (run 4 gw_scenario) = Inr (600, 500, 500, 500)"
proof -
  have h: "ge_nodes gw_scenario = [hd (ge_nodes gw_scenario)]"
      "gn_name (hd (ge_nodes gw_scenario)) \<notin> set special_names"
      "gn_matrix_position (hd (ge_nodes gw_scenario)) = 3" "3 < n_locs"
      "gn_pumping (hd (ge_nodes gw_scenario)) = 12"
      "gn_baseline_pumping (hd (ge_nodes gw_scenario)) = 10"
      "4 < n_times"
    by (simp_all add: gw_scenario_def special_names_def n_locs_def n_times_def)
  have d: "ge_dd gw_scenario = single_dd 3 (- 1 / 2)"
      "gn_head_calc (hd (ge_nodes gw_scenario)) = ge_head gw_scenario 3"
      "ge_gw_response_factor gw_scenario = 1" "ge_head gw_scenario = flat_head"
    by (simp_all add: gw_scenario_def)
  have "map_sum id ge_head (run 4 gw_scenario) =
           Inr (\<lambda>j s. if j = 3 \<and> s = 4
                       then ge_head gw_scenario 3 4
                            - (- 1 / 2) * 200 * ge_gw_response_factor gw_scenario
                       else ge_head gw_scenario j s)"
    using single_coefficient_response[OF h(1,2,3,4,5,6) d(1,2) h(7)] .
  then show ?thesis
    by (cases "run 4 gw_scenario") (auto simp: d flat_head_def)
qed



section \<open>Properties of the tanker market\<close>












text \<open>
  C10 (counterexample). In the first run with two subdistricts the second farm group is a
  seller of the model and is not paired with the second consumer, who has no represented
  units; the assignment in which that consumer takes 5 from the second farm group is
  feasible.
\<close>

theorem inactive_buyer_counterexample:
  "feasible (build_fwm market3) xs3
   \<and> a_represented_units (mk_consumers market3 ! 1) = 0
   \<and> 1 \<in> set (fwm_hixs (build_fwm market3)) \<and> 1 \<in> set (fwm_fixs (build_fwm market3))
   \<and> fwm_hs_fixs (build_fwm market3) 1 = [0]
   \<and> xs3 (1, 1) = 5"
  by code_simp

section \<open>Properties of the tanker market update\<close>














































end
